theory Spec2Isabelle
  imports Complex_Main "HOL-Library.AList"
begin

section \<open>The table held in memory\<close>

text \<open>
  \<^verbatim>\<open>app.py\<close> reads one CSV file into a pandas DataFrame \<^verbatim>\<open>df\<close> when the module is
  loaded and answers every request from it. A frame is modelled column by column, as pandas
  stores it: the number of rows and the columns in their order, each column being numeric
  (\<^verbatim>\<open>int64\<close>/\<^verbatim>\<open>float64\<close>; the numbers are taken as reals) or text (\<^verbatim>\<open>object\<close>), and
  each entry possibly missing (\<^verbatim>\<open>NaN\<close>, here \<open>None\<close>). A Python exception is a value of
  type \<open>error\<close>.
\<close>

datatype error = KeyError string | TypeError | ValueError | ZeroDivisionError

datatype cell = Num real | Str string | NaN

datatype column = NumCol "real option list" | StrCol "string option list"

record dataframe =
  nrows :: nat
  cols :: "(string \<times> column) list"

definition columns :: "dataframe \<Rightarrow> string list" where
  "columns df = map fst (cols df)"

text \<open>\<^verbatim>\<open>df[name]\<close>: the column, or \<^verbatim>\<open>KeyError\<close> when the frame has no such column.\<close>

definition getitem :: "dataframe \<Rightarrow> string \<Rightarrow> error + column" where
  "getitem df name =
     (case map_of (cols df) name of None \<Rightarrow> Inl (KeyError name) | Some c \<Rightarrow> Inr c)"

text \<open>
  \<^verbatim>\<open>df[name] = c\<close>: an existing column is replaced where it stands, a new one is appended.
\<close>

definition setitem :: "dataframe \<Rightarrow> string \<Rightarrow> column \<Rightarrow> dataframe" where
  "setitem df name c = df\<lparr>cols := AList.update name c (cols df)\<rparr>"

text \<open>\<^verbatim>\<open>df[name] = v\<close> for a number \<open>v\<close>: the value in every row.\<close>

definition setitem_scalar :: "dataframe \<Rightarrow> string \<Rightarrow> real \<Rightarrow> dataframe" where
  "setitem_scalar df name v = setitem df name (NumCol (replicate (nrows df) (Some v)))"

section \<open>Loading\<close>

text \<open>
  The statements under \<^verbatim>\<open>try:\<close> at module level, after \<^verbatim>\<open>pd.read_csv\<close>: the two
  coordinate columns, then the two defaulted columns.
\<close>

definition alias_column :: "string \<Rightarrow> string \<Rightarrow> dataframe \<Rightarrow> dataframe" where
  \<comment> \<open>\<^verbatim>\<open>if src in df.columns: df[dst] = df[src]\<close>\<close>
  "alias_column src dst df =
     (case map_of (cols df) src of Some c \<Rightarrow> setitem df dst c | None \<Rightarrow> df)"

definition default_column :: "string \<Rightarrow> real \<Rightarrow> dataframe \<Rightarrow> dataframe" where
  \<comment> \<open>\<^verbatim>\<open>if name not in df.columns: df[name] = v\<close>\<close>
  "default_column name v df =
     (if name \<notin> set (columns df) then setitem_scalar df name v else df)"

definition normalize_columns :: "dataframe \<Rightarrow> dataframe" where
  "normalize_columns df0 =
     (let df1 = alias_column ''latitude'' ''lat'' df0;
          df2 = alias_column ''longitude'' ''lon'' df1;
          df3 = default_column ''population'' 50000 df2;
          df4 = default_column ''total_budget'' 100000000 df3
      in df4)"

text \<open>
  The whole load: what \<^verbatim>\<open>pd.read_csv\<close> gave is the argument; any exception leaves
  \<^verbatim>\<open>df = None\<close>.
\<close>

definition load_data :: "error + dataframe \<Rightarrow> dataframe option" where
  "load_data csv = (case csv of Inl e \<Rightarrow> None | Inr raw \<Rightarrow> Some (normalize_columns raw))"

section \<open>Series and frame operations used by the queries\<close>

text \<open>The entries of a column, as \<^verbatim>\<open>list(series)\<close> gives them.\<close>

fun cells :: "column \<Rightarrow> cell list" where
  "cells (NumCol xs) = map (\<lambda>v. case v of None \<Rightarrow> NaN | Some r \<Rightarrow> Num r) xs"
| "cells (StrCol xs) = map (\<lambda>v. case v of None \<Rightarrow> NaN | Some s \<Rightarrow> Str s) xs"

text \<open>
  \<^verbatim>\<open>series == 'text'\<close>: one truth value per row; a number or a missing entry is never
  equal to a text.
\<close>

definition eq_mask :: "column \<Rightarrow> string \<Rightarrow> bool list" where
  "eq_mask c s = map (\<lambda>v. v = Str s) (cells c)"

text \<open>\<^verbatim>\<open>df[mask]\<close>: the rows where the mask holds, in their order, in every column.\<close>

definition select :: "bool list \<Rightarrow> 'a list \<Rightarrow> 'a list" where
  "select m xs = map snd (filter fst (zip m xs))"

fun select_col :: "bool list \<Rightarrow> column \<Rightarrow> column" where
  "select_col m (NumCol xs) = NumCol (select m xs)"
| "select_col m (StrCol xs) = StrCol (select m xs)"

definition boolean_index :: "dataframe \<Rightarrow> bool list \<Rightarrow> dataframe" where
  "boolean_index df m =
     \<lparr>nrows = length (filter id m), cols = map (\<lambda>(k, c). (k, select_col m c)) (cols df)\<rparr>"

text \<open>
  Statements in a \<^verbatim>\<open>try\<close> block run in order until one raises: \<open>seq r f\<close> goes on with
  \<open>f\<close> unless \<open>r\<close> is an exception.
\<close>

fun seq :: "error + 'a \<Rightarrow> ('a \<Rightarrow> error + 'b) \<Rightarrow> error + 'b" where
  "seq (Inl e) f = Inl e"
| "seq (Inr v) f = f v"

text \<open>
  The numbers a reduction works on: the entries that are present. A text column that holds
  a text cannot be reduced to a number (\<^verbatim>\<open>TypeError\<close>, raised by the reduction or by
  the arithmetic on its result).
\<close>

fun numeric_values :: "column \<Rightarrow> error + real list" where
  "numeric_values (NumCol xs) = Inr (concat (map (\<lambda>v. case v of None \<Rightarrow> [] | Some r \<Rightarrow> [r]) xs))"
| "numeric_values (StrCol xs) = (if \<forall>v \<in> set xs. v = None then Inr [] else Inl TypeError)"

text \<open>\<^verbatim>\<open>series.mean()\<close> skips missing entries and is \<^verbatim>\<open>NaN\<close> (\<open>None\<close>) over none.\<close>

definition mean :: "column \<Rightarrow> error + real option" where
  "mean c = seq (numeric_values c)
     (\<lambda>vs. Inr (if vs = [] then None else Some (sum_list vs / real (length vs))))"

text \<open>
  \<^verbatim>\<open>series.sum()\<close> skips missing entries and is 0 over none. The sum is that of the
  real numbers: a sum of \<^verbatim>\<open>int64\<close> entries beyond the 64-bit range wraps in pandas and
  does not here.
\<close>

definition sum_col :: "column \<Rightarrow> error + real" where
  "sum_col c = seq (numeric_values c) (\<lambda>vs. Inr (sum_list vs))"

text \<open>
  \<^verbatim>\<open>round(x, ndigits)\<close>: to the nearest multiple of \<open>10\<^sup>-\<^sup>n\<close>, a tie going to the even one.
  Python rounds the binary float; the model rounds the real number. \<^verbatim>\<open>NaN\<close> stays.
\<close>

definition py_round :: "real option \<Rightarrow> nat \<Rightarrow> real option" where
  "py_round x ndigits = map_option (\<lambda>v.
     (let y = v * 10 ^ ndigits; f = \<lfloor>y\<rfloor>;
          r = (if y - of_int f < 1 / 2 then f
               else if 1 / 2 < y - of_int f then f + 1
               else if even f then f else f + 1)
      in of_int r / 10 ^ ndigits)) x"

section \<open>Responses\<close>

record overview =
  total_wards :: nat
  high_stress_count :: nat
  medium_stress_count :: nat
  low_stress_count :: nat
  avg_pm25 :: "real option"
  avg_esi :: "real option"

record pie =
  labels :: "cell list"
  pie_values :: "nat list"
  colors :: "string list"

record scatter =
  trace_x :: column
  trace_y :: column
  trace_name :: string
  marker_color :: string
  hover_text :: column

record marker =
  location :: "real \<times> real"
  radius :: real
  color :: string
  popup :: "cell list"
  tooltip :: "cell list"

record card =
  card_type :: string
  title :: string
  text_values :: "cell list"
  action_values :: "cell list"

text \<open>
  What a route returns: a body and an HTTP status. \<open>EmptyFigureJson\<close> is
  \<^verbatim>\<open>{'data': [], 'layout': {}}\<close>, \<open>ErrorJson\<close> is \<^verbatim>\<open>{'error': str(e)}\<close>,
  \<open>NoDataHtml\<close> and \<open>ErrorHtml\<close> are the two red \<^verbatim>\<open><div>\<close> fragments of
  \<^verbatim>\<open>get_map\<close>.
\<close>

datatype payload =
    OverviewJson overview
  | ErrorJson error
  | EmptyFigureJson
  | PieJson pie
  | ScatterJson "scatter list"
  | MapHtml "marker list"
  | NoDataHtml
  | ErrorHtml error
  | WardsJson "(string \<times> cell) list list"
  | CardsJson "card list"
  | FaqJson "string list"

type_synonym response = "payload \<times> nat"

section \<open>\<^verbatim>\<open>/api/overview\<close>\<close>

definition count_zone :: "dataframe \<Rightarrow> string \<Rightarrow> error + nat" where
  \<comment> \<open>\<^verbatim>\<open>len(df[df['stress_zone'] == zone])\<close>\<close>
  "count_zone df zone =
     seq (getitem df ''stress_zone'') (\<lambda>z. Inr (nrows (boolean_index df (eq_mask z zone))))"

definition overview_data :: "dataframe \<Rightarrow> error + overview" where
  "overview_data df =
     seq (count_zone df ''High Stress'') (\<lambda>high.
     seq (count_zone df ''Medium Stress'') (\<lambda>medium.
     seq (count_zone df ''Low Stress'') (\<lambda>low.
     seq (getitem df ''pm25'') (\<lambda>pm25.
     seq (mean pm25) (\<lambda>mean_pm25.
     seq (getitem df ''esi'') (\<lambda>esi.
     seq (mean esi) (\<lambda>mean_esi.
       Inr \<lparr>total_wards = nrows df,
            high_stress_count = high,
            medium_stress_count = medium,
            low_stress_count = low,
            avg_pm25 = py_round mean_pm25 1,
            avg_esi = py_round mean_esi 3\<rparr>)))))))"

definition get_overview :: "dataframe option \<Rightarrow> response" where
  "get_overview df =
     (case df of
        None \<Rightarrow>
          (OverviewJson \<lparr>total_wards = 0, high_stress_count = 0, medium_stress_count = 0,
                         low_stress_count = 0, avg_pm25 = Some 0, avg_esi = Some 0\<rparr>, 200)
      | Some d \<Rightarrow>
          (case overview_data d of
             Inr data \<Rightarrow> (OverviewJson data, 200)
           | Inl e \<Rightarrow> (ErrorJson e, 500)))"

section \<open>\<^verbatim>\<open>/api/stress-distribution\<close>\<close>

text \<open>
  \<^verbatim>\<open>series.value_counts()\<close> with its defaults: missing entries are dropped, the distinct
  values are counted in the order they are first met, and the result is sorted by count,
  largest first. The order pandas gives to equal counts is decided inside its sort; the
  model keeps them in first-met order, and no statement below depends on that.
\<close>

fun count_into :: "cell \<Rightarrow> (cell \<times> nat) list \<Rightarrow> (cell \<times> nat) list" where
  "count_into k [] = [(k, 1)]"
| "count_into k ((k', n) # rest) =
     (if k = k' then (k', n + 1) # rest else (k', n) # count_into k rest)"

definition sort_descending :: "('a \<Rightarrow> nat) \<Rightarrow> 'a list \<Rightarrow> 'a list" where
  "sort_descending key xs = rev (sort_key key (rev xs))"

definition first_seen_counts :: "column \<Rightarrow> (cell \<times> nat) list" where
  "first_seen_counts c = fold count_into (filter (\<lambda>v. v \<noteq> NaN) (cells c)) []"

definition value_counts :: "column \<Rightarrow> (cell \<times> nat) list" where
  "value_counts c = sort_descending snd (first_seen_counts c)"

definition stress_pie :: "dataframe \<Rightarrow> error + pie" where
  "stress_pie df =
     seq (getitem df ''stress_zone'') (\<lambda>z.
       let stress_counts = value_counts z
       in Inr \<lparr>labels = map fst stress_counts,
               pie_values = map snd stress_counts,
               colors = [''#e74c3c'', ''#f39c12'', ''#2ecc71'']\<rparr>)"

definition stress_distribution :: "dataframe option \<Rightarrow> response" where
  "stress_distribution df =
     (case df of
        None \<Rightarrow> (EmptyFigureJson, 200)
      | Some d \<Rightarrow>
          (case stress_pie d of
             Inr fig \<Rightarrow> (PieJson fig, 200)
           | Inl e \<Rightarrow> (ErrorJson e, 500)))"

text \<open>
  Plotly draws the \<open>i\<close>-th label with the \<open>i\<close>-th entry of \<^verbatim>\<open>marker.colors\<close>.
\<close>

definition sector_colors :: "pie \<Rightarrow> (cell \<times> string) list" where
  "sector_colors p = zip (labels p) (colors p)"

section \<open>\<^verbatim>\<open>/api/pm25-green\<close>\<close>

definition colors_map :: "(string \<times> string) list" where
  "colors_map = [(''High Stress'', ''#e74c3c''), (''Medium Stress'', ''#f39c12''),
                 (''Low Stress'', ''#2ecc71'')]"

definition dict_getitem :: "(string \<times> 'v) list \<Rightarrow> string \<Rightarrow> error + 'v" where
  "dict_getitem d k = (case map_of d k of None \<Rightarrow> Inl (KeyError k) | Some v \<Rightarrow> Inr v)"

text \<open>
  \<^verbatim>\<open>series * 100\<close>: numbers are multiplied, a text is repeated, a missing entry stays.
\<close>

fun times_100 :: "column \<Rightarrow> column" where
  "times_100 (NumCol xs) = NumCol (map (map_option (\<lambda>v. v * 100)) xs)"
| "times_100 (StrCol xs) = StrCol (map (map_option (\<lambda>s. concat (replicate 100 s))) xs)"

text \<open>The body of the loop over the three zones: the figure so far, with one more trace
  when the zone has rows.\<close>

definition add_zone_trace :: "dataframe \<Rightarrow> string \<Rightarrow> scatter list \<Rightarrow> error + scatter list" where
  "add_zone_trace df zone fig =
     seq (getitem df ''stress_zone'') (\<lambda>z.
       let zone_data = boolean_index df (eq_mask z zone)
       in if nrows zone_data > 0 then
            seq (getitem zone_data ''green_cover'') (\<lambda>green.
            seq (getitem zone_data ''pm25'') (\<lambda>pm25.
            seq (dict_getitem colors_map zone) (\<lambda>c.
            seq (getitem zone_data ''ward'') (\<lambda>ward.
              Inr (fig @ [\<lparr>trace_x = times_100 green, trace_y = pm25, trace_name = zone,
                           marker_color = c, hover_text = ward\<rparr>])))))
          else Inr fig)"

fun add_zone_traces :: "dataframe \<Rightarrow> string list \<Rightarrow> scatter list \<Rightarrow> error + scatter list" where
  "add_zone_traces df [] fig = Inr fig"
| "add_zone_traces df (zone # zones) fig =
     seq (add_zone_trace df zone fig) (add_zone_traces df zones)"

definition pm25_green :: "dataframe option \<Rightarrow> response" where
  "pm25_green df =
     (case df of
        None \<Rightarrow> (EmptyFigureJson, 200)
      | Some d \<Rightarrow>
          (case add_zone_traces d [''Low Stress'', ''Medium Stress'', ''High Stress''] [] of
             Inr fig \<Rightarrow> (ScatterJson fig, 200)
           | Inl e \<Rightarrow> (ErrorJson e, 500)))"

section \<open>\<^verbatim>\<open>/api/map\<close>\<close>

text \<open>
  \<^verbatim>\<open>df.iterrows()\<close> gives each row as a mapping from column name to entry. A frame has as
  many entries in every column as it has rows; for a column that is too short the model
  reads a missing entry.
\<close>

definition cell_at :: "column \<Rightarrow> nat \<Rightarrow> cell" where
  "cell_at c i = (if i < length (cells c) then cells c ! i else NaN)"

definition row_at :: "dataframe \<Rightarrow> nat \<Rightarrow> (string \<times> cell) list" where
  "row_at df i = map (\<lambda>(k, c). (k, cell_at c i)) (cols df)"

definition iterrows :: "dataframe \<Rightarrow> (string \<times> cell) list list" where
  "iterrows df = map (row_at df) [0..<nrows df]"

fun map_err :: "('a \<Rightarrow> error + 'b) \<Rightarrow> 'a list \<Rightarrow> error + 'b list" where
  "map_err f [] = Inr []"
| "map_err f (a # as) = seq (f a) (\<lambda>b. seq (map_err f as) (\<lambda>bs. Inr (b # bs)))"

text \<open>
  \<^verbatim>\<open>colors.get(stress, '#999')\<close>; the dictionary \<^verbatim>\<open>colors\<close> of \<^verbatim>\<open>get_map\<close> has the
  entries of \<^verbatim>\<open>colors_map\<close>.
\<close>

definition zone_color :: "cell \<Rightarrow> string" where
  "zone_color stress =
     (case stress of
        Str s \<Rightarrow> (case map_of colors_map s of Some c \<Rightarrow> c | None \<Rightarrow> ''#999'')
      | _ \<Rightarrow> ''#999'')"

text \<open>
  \<^verbatim>\<open>max(8, min(25, 5 + (row['esi'] * 20)))\<close>. A text times 20 is a text, and adding it to
  5 raises. With \<^verbatim>\<open>NaN\<close> every comparison is false, so \<^verbatim>\<open>min\<close> keeps 25 and
  \<^verbatim>\<open>max\<close> keeps it too.
\<close>

fun marker_radius :: "cell \<Rightarrow> error + real" where
  "marker_radius (Num esi) = Inr (max 8 (min 25 (5 + esi * 20)))"
| "marker_radius NaN = Inr 25"
| "marker_radius (Str s) = Inl TypeError"

text \<open>
  A replacement field \<^verbatim>\<open>{v:.4f}\<close> (or \<^verbatim>\<open>.1f\<close>, \<^verbatim>\<open>.0f\<close>, \<^verbatim>\<open>.3f\<close>) accepts a
  number or \<^verbatim>\<open>NaN\<close> and raises for a text. The model keeps the value, not its digits.
\<close>

fun format_float :: "cell \<Rightarrow> error + cell" where
  "format_float (Str s) = Inl ValueError"
| "format_float v = Inr v"

fun cell_times_100 :: "cell \<Rightarrow> cell" where
  "cell_times_100 (Num v) = Num (v * 100)"
| "cell_times_100 (Str s) = Str (concat (replicate 100 s))"
| "cell_times_100 NaN = NaN"

text \<open>
  \<^verbatim>\<open>int(v)\<close>: a number is cut towards zero, \<^verbatim>\<open>NaN\<close> raises, a text is parsed by
  Python (\<open>parse\<close>, which the source does not contain).
\<close>

fun py_int :: "(string \<Rightarrow> int option) \<Rightarrow> cell \<Rightarrow> error + int" where
  "py_int parse (Num v) = Inr (if 0 \<le> v then \<lfloor>v\<rfloor> else \<lceil>v\<rceil>)"
| "py_int parse NaN = Inl ValueError"
| "py_int parse (Str s) = (case parse s of None \<Rightarrow> Inl ValueError | Some i \<Rightarrow> Inr i)"

text \<open>A coordinate handed to \<^verbatim>\<open>folium.CircleMarker\<close> must be a number.\<close>

fun coordinate :: "cell \<Rightarrow> error + real" where
  "coordinate (Num v) = Inr v"
| "coordinate v = Inl ValueError"

text \<open>
  The body of the loop over the rows. The popup and the tooltip are kept as the values they
  show, in the order of the template.
\<close>

definition make_marker :: "(string \<Rightarrow> int option) \<Rightarrow> (string \<times> cell) list \<Rightarrow> error + marker" where
  "make_marker parse row =
     seq (dict_getitem row ''stress_zone'') (\<lambda>stress.
     let c = zone_color stress in
     seq (dict_getitem row ''esi'') (\<lambda>esi.
     seq (marker_radius esi) (\<lambda>r.
     let population = (case map_of row ''population'' of None \<Rightarrow> Num 50000 | Some v \<Rightarrow> v) in
     seq (dict_getitem row ''ward'') (\<lambda>ward.
     seq (dict_getitem row ''lat'') (\<lambda>lat.
     seq (format_float lat) (\<lambda>lat_shown.
     seq (dict_getitem row ''lon'') (\<lambda>lon.
     seq (format_float lon) (\<lambda>lon_shown.
     seq (dict_getitem row ''pm25'') (\<lambda>pm25.
     seq (format_float pm25) (\<lambda>pm25_shown.
     seq (dict_getitem row ''heat'') (\<lambda>heat.
     seq (format_float heat) (\<lambda>heat_shown.
     seq (dict_getitem row ''green_cover'') (\<lambda>green.
     seq (format_float (cell_times_100 green)) (\<lambda>green_shown.
     seq (dict_getitem row ''pop_density'') (\<lambda>density.
     seq (format_float density) (\<lambda>density_shown.
     seq (format_float esi) (\<lambda>esi_shown.
     seq (py_int parse population) (\<lambda>population_shown.
     seq (coordinate lat) (\<lambda>la.
     seq (coordinate lon) (\<lambda>lo.
       Inr \<lparr>location = (la, lo),
            radius = r,
            color = c,
            popup = [ward, lat_shown, lon_shown, pm25_shown, heat_shown, green_shown,
                     density_shown, esi_shown, stress, Num (of_int population_shown)],
            tooltip = [ward, esi_shown, stress]\<rparr>))))))))))))))))))))"

definition get_map :: "(string \<Rightarrow> int option) \<Rightarrow> dataframe option \<Rightarrow> response" where
  "get_map parse df =
     (case df of
        None \<Rightarrow> (NoDataHtml, 200)
      | Some d \<Rightarrow>
          (case map_err (make_marker parse) (iterrows d) of
             Inr markers \<Rightarrow> (MapHtml markers, 200)
           | Inl e \<Rightarrow> (ErrorHtml e, 200)))"

text \<open>The radius as the specification words it: \<open>clamp(v, lo, hi)\<close>.\<close>

definition spec_clamp :: "real \<Rightarrow> real \<Rightarrow> real \<Rightarrow> real" where
  "spec_clamp v lo hi = (if v < lo then lo else if hi < v then hi else v)"

section \<open>\<^verbatim>\<open>/api/wards\<close>\<close>

definition ward_columns :: "string list" where
  "ward_columns = [''ward'', ''pm25'', ''heat'', ''pop_density'', ''green_cover'', ''esi'',
                   ''stress_zone'']"

text \<open>
  \<^verbatim>\<open>df[[...]]\<close> raises \<^verbatim>\<open>KeyError\<close> when a listed column is missing (pandas names all
  the missing ones in the message, the model the first). \<^verbatim>\<open>sort_values('esi',
  ascending=False)\<close> is called with the default \<^verbatim>\<open>kind='quicksort'\<close>; where rows with
  equal \<^verbatim>\<open>esi\<close> end up is decided inside numpy and not by this program, so the order in
  which the sort leaves the rows is the parameter \<open>sort_order\<close>: the row positions, first
  row of the result first.
\<close>

definition wards_records ::
  "(column \<Rightarrow> nat list) \<Rightarrow> dataframe \<Rightarrow> error + (string \<times> cell) list list" where
  "wards_records sort_order df =
     seq (map_err (\<lambda>k. seq (getitem df k) (\<lambda>c. Inr (k, c))) ward_columns) (\<lambda>data.
     seq (dict_getitem data ''esi'') (\<lambda>esi.
       Inr (map (\<lambda>i. map (\<lambda>(k, c). (k, cell_at c i)) data) (sort_order esi))))"

definition get_wards :: "(column \<Rightarrow> nat list) \<Rightarrow> dataframe option \<Rightarrow> response" where
  "get_wards sort_order df =
     (case df of
        None \<Rightarrow> (WardsJson [], 200)
      | Some d \<Rightarrow>
          (case wards_records sort_order d of
             Inr records \<Rightarrow> (WardsJson records, 200)
           | Inl e \<Rightarrow> (WardsJson [], 200)))"

section \<open>\<^verbatim>\<open>/api/insights\<close>\<close>

definition py_div :: "real \<Rightarrow> real \<Rightarrow> error + real" where
  "py_div a b = (if b = 0 then Inl ZeroDivisionError else Inr (a / b))"

definition opt_cell :: "real option \<Rightarrow> cell" where
  "opt_cell v = (case v of None \<Rightarrow> NaN | Some r \<Rightarrow> Num r)"

definition card_critical :: "dataframe \<Rightarrow> error + card" where
  "card_critical df =
     seq (count_zone df ''High Stress'') (\<lambda>critical.
     let total = nrows df in
     seq (py_div (real critical) (real total)) (\<lambda>share.
       Inr \<lparr>card_type = ''critical'', title = ''Critical Zones'',
            text_values = [Num (real critical), Num (share * 100)],
            action_values = []\<rparr>))"

text \<open>
  \<^verbatim>\<open>series.idxmax()\<close>: the label of the first row that holds the largest value, missing
  entries skipped; it raises when there is no value at all, and \<^verbatim>\<open>TypeError\<close> on a text
  column. The frame read from the CSV file is labelled \<^verbatim>\<open>0, 1, 2, ...\<close>, so the label is
  the row position and \<^verbatim>\<open>df.loc[label]\<close> is that row.
\<close>

fun idxmax :: "column \<Rightarrow> error + nat" where
  "idxmax (NumCol xs) =
     (case List.map_filter (\<lambda>(i, v). map_option (Pair i) v) (enumerate 0 xs) of
        [] \<Rightarrow> Inl ValueError
      | p # ps \<Rightarrow> Inr (fst (fold (\<lambda>(i, v) (bi, bv). if bv < v then (i, v) else (bi, bv)) ps p)))"
| "idxmax (StrCol xs) = Inl TypeError"

text \<open>
  \<^verbatim>\<open>((worst_ward['pm25'] / avg_pm25 - 1) * 100) if avg_pm25 > 0 else 0\<close>
\<close>

fun pct_above :: "cell \<Rightarrow> real option \<Rightarrow> error + cell" where
  "pct_above w None = Inr (Num 0)"
| "pct_above (Num w) (Some a) = Inr (if 0 < a then Num ((w / a - 1) * 100) else Num 0)"
| "pct_above NaN (Some a) = Inr (if 0 < a then NaN else Num 0)"
| "pct_above (Str s) (Some a) = (if 0 < a then Inl TypeError else Inr (Num 0))"

definition card_pollution :: "dataframe \<Rightarrow> error + card" where
  "card_pollution df =
     seq (getitem df ''pm25'') (\<lambda>pm25.
     seq (idxmax pm25) (\<lambda>worst_idx.
     let worst_ward = row_at df worst_idx in
     seq (mean pm25) (\<lambda>avg_pm25.
     seq (dict_getitem worst_ward ''pm25'') (\<lambda>worst_pm25.
     seq (pct_above worst_pm25 avg_pm25) (\<lambda>pct.
     seq (dict_getitem worst_ward ''ward'') (\<lambda>ward.
     seq (format_float worst_pm25) (\<lambda>worst_shown.
     seq (format_float pct) (\<lambda>pct_shown.
       Inr \<lparr>card_type = ''pollution'', title = ''Pollution Hotspot'',
            text_values = [ward, worst_shown],
            action_values = [pct_shown]\<rparr>))))))))"

definition card_green :: "dataframe \<Rightarrow> error + card" where
  "card_green df =
     seq (getitem df ''green_cover'') (\<lambda>green.
     seq (mean green) (\<lambda>avg_green.
     let target = 0.25;
         gap = map_option (\<lambda>a. (target - a) * 100) avg_green
     in Inr \<lparr>card_type = ''green'', title = ''Green Cover Gap'',
             text_values = [opt_cell (map_option (\<lambda>a. a * 100) avg_green)],
             action_values = [opt_cell gap]\<rparr>))"

text \<open>
  \<^verbatim>\<open>df[df['stress_zone'] == 'High Stress'][name].sum() if name in df.columns else 0\<close>
\<close>

definition high_stress_sum :: "dataframe \<Rightarrow> string \<Rightarrow> error + real" where
  "high_stress_sum df name =
     (if name \<in> set (columns df) then
        seq (getitem df ''stress_zone'') (\<lambda>z.
        seq (getitem (boolean_index df (eq_mask z ''High Stress'')) name) sum_col)
      else Inr 0)"

definition card_population :: "dataframe \<Rightarrow> error + card" where
  "card_population df =
     seq (high_stress_sum df ''population'') (\<lambda>critical_pop.
       Inr \<lparr>card_type = ''population'', title = ''Population at Risk'',
            text_values = [Num (critical_pop / 1000000)],
            action_values = []\<rparr>)"

definition card_budget :: "dataframe \<Rightarrow> error + card" where
  "card_budget df =
     seq (high_stress_sum df ''total_budget'') (\<lambda>high_budget.
     seq (if ''total_budget'' \<in> set (columns df)
          then seq (getitem df ''total_budget'') sum_col else Inr 1) (\<lambda>total_budget.
     let pct_budget = (if 0 < total_budget then high_budget / total_budget * 100 else 0)
     in Inr \<lparr>card_type = ''budget'', title = ''Budget Strategy'',
             text_values = [Num (high_budget / 10000000)],
             action_values = [Num pct_budget]\<rparr>))"

definition insights_cards :: "dataframe \<Rightarrow> error + card list" where
  "insights_cards df =
     seq (card_critical df) (\<lambda>c1.
     seq (card_pollution df) (\<lambda>c2.
     seq (card_green df) (\<lambda>c3.
     seq (card_population df) (\<lambda>c4.
     seq (card_budget df) (\<lambda>c5.
       Inr [c1, c2, c3, c4, c5])))))"

definition get_insights :: "dataframe option \<Rightarrow> response" where
  "get_insights df =
     (case df of
        None \<Rightarrow> (CardsJson [], 200)
      | Some d \<Rightarrow>
          (case insights_cards d of
             Inr insights \<Rightarrow> (CardsJson insights, 200)
           | Inl e \<Rightarrow> (CardsJson [], 200)))"

definition insight_titles :: "string list" where
  "insight_titles = [''Critical Zones'', ''Pollution Hotspot'', ''Green Cover Gap'',
                     ''Population at Risk'', ''Budget Strategy'']"

section \<open>\<^verbatim>\<open>/api/faq\<close> and the routes together\<close>

text \<open>The five fixed entries, by their questions.\<close>

definition get_faq :: response where
  \<open>get_faq =
     (FaqJson [''What does "High Stress" mean?'', ''How is ESI calculated?'',
               ''Which wards need priority?'', ''How can ESI be reduced?'',
               ''What is PM2.5?''], 200)\<close>

datatype endpoint =
  ApiOverview | ApiStressDistribution | ApiPm25Green | ApiMap | ApiWards | ApiInsights | ApiFaq

definition handle ::
  "(column \<Rightarrow> nat list) \<Rightarrow> (string \<Rightarrow> int option) \<Rightarrow> endpoint \<Rightarrow> dataframe option \<Rightarrow> response" where
  "handle sort_order parse ep df =
     (case ep of
        ApiOverview \<Rightarrow> get_overview df
      | ApiStressDistribution \<Rightarrow> stress_distribution df
      | ApiPm25Green \<Rightarrow> pm25_green df
      | ApiMap \<Rightarrow> get_map parse df
      | ApiWards \<Rightarrow> get_wards sort_order df
      | ApiInsights \<Rightarrow> get_insights df
      | ApiFaq \<Rightarrow> get_faq)"

section \<open>Well-formed frames, known zones, example frames\<close>

text \<open>Every column of a frame has one entry per row.\<close>

definition wf_frame :: "dataframe \<Rightarrow> bool" where
  "wf_frame df = list_all (\<lambda>(k, c). length (cells c) = nrows df) (cols df)"

definition known_zone :: "cell \<Rightarrow> bool" where
  "known_zone c =
     (c = Str ''High Stress'' \<or> c = Str ''Medium Stress'' \<or> c = Str ''Low Stress'')"

text \<open>
  Three wards, the second with a zone label outside the three known ones and two
  \<^verbatim>\<open>esi\<close> values outside \<open>[0, 1]\<close>.
\<close>

definition frame_three_wards :: dataframe where
  "frame_three_wards =
     \<lparr>nrows = 3,
      cols = [(''ward'', StrCol [Some ''A'', Some ''B'', Some ''C'']),
              (''lat'', NumCol [Some 18, Some 19, Some 20]),
              (''lon'', NumCol [Some 73, Some 74, Some 75]),
              (''pm25'', NumCol [Some 50, Some 10, Some 30]),
              (''heat'', NumCol [Some 35, Some 30, Some 32]),
              (''green_cover'', NumCol [Some (1 / 10), Some (4 / 10), Some (1 / 10)]),
              (''pop_density'', NumCol [Some 9000, Some 2000, Some 5000]),
              (''esi'', NumCol [Some (7 / 10), Some (- 3), Some 2]),
              (''stress_zone'', StrCol [Some ''High Stress'', Some ''Unknown'', Some ''Low Stress'']),
              (''population'', NumCol [Some 50000, Some 50000, Some 50000]),
              (''total_budget'', NumCol [Some 100000000, Some 100000000, Some 100000000])]\<rparr>"

definition overview_three_wards :: overview where
  "overview_three_wards =
     \<lparr>total_wards = 3, high_stress_count = 1, medium_stress_count = 0, low_stress_count = 1,
      avg_pm25 = Some 30, avg_esi = Some (- (1 / 10))\<rparr>"

text \<open>The two wards of the specification's scenario: A in High Stress, B in Low Stress.\<close>

definition frame_two_wards :: dataframe where
  "frame_two_wards =
     \<lparr>nrows = 2,
      cols = [(''ward'', StrCol [Some ''A'', Some ''B'']),
              (''lat'', NumCol [Some 18, Some 19]),
              (''lon'', NumCol [Some 73, Some 74]),
              (''pm25'', NumCol [Some 50, Some 10]),
              (''heat'', NumCol [Some 35, Some 30]),
              (''green_cover'', NumCol [Some (1 / 10), Some (4 / 10)]),
              (''pop_density'', NumCol [Some 9000, Some 2000]),
              (''esi'', NumCol [Some (7 / 10), Some (3 / 10)]),
              (''stress_zone'', StrCol [Some ''High Stress'', Some ''Low Stress'']),
              (''population'', NumCol [Some 50000, Some 50000]),
              (''total_budget'', NumCol [Some 100000000, Some 100000000])]\<rparr>"

definition overview_two_wards :: overview where
  "overview_two_wards =
     \<lparr>total_wards = 2, high_stress_count = 1, medium_stress_count = 0, low_stress_count = 1,
      avg_pm25 = Some 30, avg_esi = Some (1 / 2)\<rparr>"

text \<open>A source without a \<^verbatim>\<open>stress_zone\<close> column.\<close>

definition frame_no_zone :: dataframe where
  "frame_no_zone = \<lparr>nrows = 1, cols = [(''ward'', StrCol [Some ''A''])]\<rparr>"

text \<open>Zones met in the order Low, High, High; and Low, Low, High.\<close>

definition frame_low_high_high :: dataframe where
  "frame_low_high_high =
     \<lparr>nrows = 3,
      cols = [(''stress_zone'',
               StrCol [Some ''Low Stress'', Some ''High Stress'', Some ''High Stress''])]\<rparr>"

definition frame_low_low_high :: dataframe where
  "frame_low_low_high =
     \<lparr>nrows = 3,
      cols = [(''stress_zone'',
               StrCol [Some ''Low Stress'', Some ''Low Stress'', Some ''High Stress''])]\<rparr>"

text \<open>
  What the map and the scatter chart give for the three wards: ward B, of unknown zone, has
  a gray marker and is in neither series.
\<close>

definition markers_three_wards :: "marker list" where
  "markers_three_wards =
     [\<lparr>location = (18, 73), radius = 19, color = ''#e74c3c'',
       popup = [Str ''A'', Num 18, Num 73, Num 50, Num 35, Num 10, Num 9000, Num (7 / 10),
                Str ''High Stress'', Num 50000],
       tooltip = [Str ''A'', Num (7 / 10), Str ''High Stress'']\<rparr>,
      \<lparr>location = (19, 74), radius = 8, color = ''#999'',
       popup = [Str ''B'', Num 19, Num 74, Num 10, Num 30, Num 40, Num 2000, Num (- 3),
                Str ''Unknown'', Num 50000],
       tooltip = [Str ''B'', Num (- 3), Str ''Unknown'']\<rparr>,
      \<lparr>location = (20, 75), radius = 25, color = ''#2ecc71'',
       popup = [Str ''C'', Num 20, Num 75, Num 30, Num 32, Num 10, Num 5000, Num 2,
                Str ''Low Stress'', Num 50000],
       tooltip = [Str ''C'', Num 2, Str ''Low Stress'']\<rparr>]"

definition traces_three_wards :: "scatter list" where
  "traces_three_wards =
     [\<lparr>trace_x = NumCol [Some 10], trace_y = NumCol [Some 30], trace_name = ''Low Stress'',
       marker_color = ''#2ecc71'', hover_text = StrCol [Some ''C'']\<rparr>,
      \<lparr>trace_x = NumCol [Some 10], trace_y = NumCol [Some 50], trace_name = ''High Stress'',
       marker_color = ''#e74c3c'', hover_text = StrCol [Some ''A'']\<rparr>]"

definition zones_three_wards :: column where
  "zones_three_wards = StrCol [Some ''High Stress'', Some ''Unknown'', Some ''Low Stress'']"

definition pie_low_high_high :: pie where
  "pie_low_high_high =
     \<lparr>labels = [Str ''High Stress'', Str ''Low Stress''], pie_values = [2, 1],
      colors = [''#e74c3c'', ''#f39c12'', ''#2ecc71'']\<rparr>"

definition pie_low_low_high :: pie where
  "pie_low_low_high =
     \<lparr>labels = [Str ''Low Stress'', Str ''High Stress''], pie_values = [2, 1],
      colors = [''#e74c3c'', ''#f39c12'', ''#2ecc71'']\<rparr>"

text \<open>The five cards for the two wards of the scenario.\<close>

definition cards_two_wards :: "card list" where
  "cards_two_wards =
     [\<lparr>card_type = ''critical'', title = ''Critical Zones'',
       text_values = [Num 1, Num 50], action_values = []\<rparr>,
      \<lparr>card_type = ''pollution'', title = ''Pollution Hotspot'',
       text_values = [Str ''A'', Num 50], action_values = [Num (200 / 3)]\<rparr>,
      \<lparr>card_type = ''green'', title = ''Green Cover Gap'',
       text_values = [Num 25], action_values = [Num 0]\<rparr>,
      \<lparr>card_type = ''population'', title = ''Population at Risk'',
       text_values = [Num (1 / 20)], action_values = []\<rparr>,
      \<lparr>card_type = ''budget'', title = ''Budget Strategy'',
       text_values = [Num 10], action_values = [Num 50]\<rparr>]"

text \<open>A loaded table with its columns and no rows.\<close>

definition frame_zero_rows :: dataframe where
  "frame_zero_rows =
     \<lparr>nrows = 0,
      cols = [(''ward'', StrCol []), (''pm25'', StrCol []), (''green_cover'', StrCol []),
              (''esi'', StrCol []), (''stress_zone'', StrCol []),
              (''population'', NumCol []), (''total_budget'', NumCol [])]\<rparr>"

section \<open>Notions used in the statements\<close>

text \<open>The count a list of (label, count) pairs gives to a label, 0 when it is not there.\<close>

definition tally :: "(cell \<times> nat) list \<Rightarrow> cell \<Rightarrow> nat" where
  "tally acc k = (case map_of acc k of None \<Rightarrow> 0 | Some n \<Rightarrow> n)"

text \<open>
  A series of the scatter chart is the series of a frame's zone: it carries the name of one
  of the three known zones and holds, for exactly the rows of that zone and in their order,
  the green cover times 100, the PM2.5 value and the ward.
\<close>

definition series_of :: "dataframe \<Rightarrow> scatter \<Rightarrow> bool" where
  "series_of df t =
     (known_zone (Str (trace_name t)) \<and>
      (case getitem df ''stress_zone'' of
         Inl e \<Rightarrow> False
       | Inr z \<Rightarrow>
           (let zone_data = boolean_index df (eq_mask z (trace_name t))
            in seq (getitem zone_data ''green_cover'') (\<lambda>g. Inr (times_100 g)) = Inr (trace_x t) \<and>
               getitem zone_data ''pm25'' = Inr (trace_y t) \<and>
               getitem zone_data ''ward'' = Inr (hover_text t))))"

text \<open>
  A table on which no statement of \<^verbatim>\<open>get_insights\<close> raises: it has a row, the columns
  \<^verbatim>\<open>stress_zone\<close> and \<^verbatim>\<open>ward\<close>, a numeric \<^verbatim>\<open>pm25\<close> column with at least one value,
  a numeric \<^verbatim>\<open>green_cover\<close> column, and no text in \<^verbatim>\<open>population\<close> or
  \<^verbatim>\<open>total_budget\<close>.
\<close>

definition insights_ready :: "dataframe \<Rightarrow> bool" where
  "insights_ready df =
     (0 < nrows df \<and>
      ''stress_zone'' \<in> set (columns df) \<and>
      ''ward'' \<in> set (columns df) \<and>
      (case getitem df ''pm25'' of Inr (NumCol xs) \<Rightarrow> list_ex (\<lambda>v. v \<noteq> None) xs | _ \<Rightarrow> False) \<and>
      (case getitem df ''green_cover'' of Inr (NumCol xs) \<Rightarrow> True | _ \<Rightarrow> False) \<and>
      (case getitem df ''population'' of Inr (StrCol xs) \<Rightarrow> False | _ \<Rightarrow> True) \<and>
      (case getitem df ''total_budget'' of Inr (StrCol xs) \<Rightarrow> False | _ \<Rightarrow> True))"

text \<open>
  Three small sources: one with both \<^verbatim>\<open>lat\<close> and \<^verbatim>\<open>latitude\<close>, one with a
  \<^verbatim>\<open>population\<close> column and no \<^verbatim>\<open>total_budget\<close>, one the other way round.
\<close>

definition frame_both_coords :: dataframe where
  "frame_both_coords =
     \<lparr>nrows = 1, cols = [(''lat'', NumCol [Some 1]), (''latitude'', NumCol [Some 2])]\<rparr>"

definition frame_with_population :: dataframe where
  "frame_with_population =
     \<lparr>nrows = 2, cols = [(''ward'', StrCol [Some ''A'', Some ''B'']),
                          (''population'', NumCol [Some 10, None]),
                          (''longitude'', NumCol [Some 73, Some 74])]\<rparr>"

definition frame_with_budget :: dataframe where
  "frame_with_budget =
     \<lparr>nrows = 2, cols = [(''ward'', StrCol [Some ''A'', Some ''B'']),
                          (''total_budget'', NumCol [Some 7, Some 8]),
                          (''lon'', NumCol [Some 73, Some 74])]\<rparr>"

section \<open>Properties of loading\<close>

lemma map_of_setitem:
  "map_of (cols (setitem df k c)) = (map_of (cols df))(k \<mapsto> c)"
  by (simp add: setitem_def update_conv')

lemma columns_mem_iff: "k \<in> set (columns df) \<longleftrightarrow> map_of (cols df) k \<noteq> None"
  by (simp add: columns_def map_of_eq_None_iff)

lemma nrows_setitem [simp]: "nrows (setitem df k c) = nrows df"
  by (simp add: setitem_def)

lemma nrows_alias_column [simp]: "nrows (alias_column s d df) = nrows df"
  by (simp add: alias_column_def split: option.split)

lemma nrows_default_column [simp]: "nrows (default_column k v df) = nrows df"
  by (simp add: default_column_def setitem_scalar_def)

lemma getitem_alias_column:
  "getitem (alias_column s d df) k =
     (if k = d \<and> s \<in> set (columns df) then getitem df s else getitem df k)"
  by (simp add: alias_column_def getitem_def map_of_setitem columns_mem_iff
      split: option.split)

lemma getitem_default_column:
  "getitem (default_column n v df) k =
     (if k = n \<and> n \<notin> set (columns df)
      then Inr (NumCol (replicate (nrows df) (Some v))) else getitem df k)"
  by (simp add: default_column_def getitem_def map_of_setitem columns_mem_iff
      setitem_scalar_def split: option.split)

lemma columns_mem_getitem: "k \<in> set (columns df) \<longleftrightarrow> \<not> isl (getitem df k)"
  by (simp add: columns_mem_iff getitem_def split: option.split)

lemma mem_columns_alias_column:
  "k \<in> set (columns (alias_column s d df)) \<longleftrightarrow>
     k \<in> set (columns df) \<or> (k = d \<and> s \<in> set (columns df))"
  by (auto simp: columns_mem_getitem getitem_alias_column)

lemma mem_columns_default_column:
  "k \<in> set (columns (default_column n v df)) \<longleftrightarrow> k \<in> set (columns df) \<or> k = n"
  by (auto simp: columns_mem_getitem getitem_default_column)

lemmas normalize_simps =
  normalize_columns_def Let_def getitem_alias_column getitem_default_column
  mem_columns_alias_column mem_columns_default_column

text \<open>
  C8. Defaulting is decided per column: a \<^verbatim>\<open>population\<close> column of the source is kept as
  it is, and without one every row gets 50000; likewise \<^verbatim>\<open>total_budget\<close> with 100000000.
\<close>

theorem default_columns_all_or_nothing:
  "(''population'' \<in> set (columns raw) \<longrightarrow>
      getitem (normalize_columns raw) ''population'' = getitem raw ''population'') \<and>
   (''population'' \<notin> set (columns raw) \<longrightarrow>
      getitem (normalize_columns raw) ''population''
        = Inr (NumCol (replicate (nrows raw) (Some 50000)))) \<and>
   (''total_budget'' \<in> set (columns raw) \<longrightarrow>
      getitem (normalize_columns raw) ''total_budget'' = getitem raw ''total_budget'') \<and>
   (''total_budget'' \<notin> set (columns raw) \<longrightarrow>
      getitem (normalize_columns raw) ''total_budget''
        = Inr (NumCol (replicate (nrows raw) (Some 100000000)))) \<and>
   load_data (Inr raw) = Some (normalize_columns raw)"
  by (simp add: normalize_simps load_data_def)

theorem default_columns_all_or_nothing_witness:
  "''population'' \<in> set (columns frame_with_population) \<and>
   getitem (normalize_columns frame_with_population) ''population''
     = Inr (NumCol [Some 10, None]) \<and>
   ''total_budget'' \<notin> set (columns frame_with_population) \<and>
   getitem (normalize_columns frame_with_population) ''total_budget''
     = Inr (NumCol [Some 100000000, Some 100000000]) \<and>
   ''population'' \<notin> set (columns frame_with_budget) \<and>
   getitem (normalize_columns frame_with_budget) ''population''
     = Inr (NumCol [Some 50000, Some 50000]) \<and>
   ''total_budget'' \<in> set (columns frame_with_budget) \<and>
   getitem (normalize_columns frame_with_budget) ''total_budget''
     = Inr (NumCol [Some 7, Some 8])"
  using default_columns_all_or_nothing [of frame_with_population]
    default_columns_all_or_nothing [of frame_with_budget]
  by (simp add: frame_with_population_def frame_with_budget_def columns_def getitem_def
      numeral_2_eq_2)

text \<open>
  C7, as the claim has it, fails: the copy is made whenever the source has a
  \<^verbatim>\<open>latitude\<close> column, also over a \<^verbatim>\<open>lat\<close> column that is already there. Here
  \<^verbatim>\<open>lat\<close> held 1 and holds 2 after loading.
\<close>

theorem lat_overwritten_counterexample:
  "''lat'' \<in> set (columns frame_both_coords) \<and>
   getitem frame_both_coords ''lat'' = Inr (NumCol [Some 1]) \<and>
   getitem (normalize_columns frame_both_coords) ''lat'' = Inr (NumCol [Some 2])"
  by (simp add: normalize_simps, simp add: frame_both_coords_def columns_def getitem_def)

text \<open>
  C7, amended. Whenever the source has a \<^verbatim>\<open>latitude\<close> column, \<^verbatim>\<open>lat\<close> holds its
  values after loading, whether or not \<^verbatim>\<open>lat\<close> existed; without a \<^verbatim>\<open>latitude\<close>
  column \<^verbatim>\<open>lat\<close> is as in the source. The same for \<^verbatim>\<open>longitude\<close> and \<^verbatim>\<open>lon\<close>.
  The \<^verbatim>\<open>latitude\<close> and \<^verbatim>\<open>longitude\<close> columns themselves stay.
\<close>

theorem coordinate_columns_copied:
  "(''latitude'' \<in> set (columns raw) \<longrightarrow>
      getitem (normalize_columns raw) ''lat'' = getitem raw ''latitude'') \<and>
   (''latitude'' \<notin> set (columns raw) \<longrightarrow>
      getitem (normalize_columns raw) ''lat'' = getitem raw ''lat'') \<and>
   (''longitude'' \<in> set (columns raw) \<longrightarrow>
      getitem (normalize_columns raw) ''lon'' = getitem raw ''longitude'') \<and>
   (''longitude'' \<notin> set (columns raw) \<longrightarrow>
      getitem (normalize_columns raw) ''lon'' = getitem raw ''lon'') \<and>
   getitem (normalize_columns raw) ''latitude'' = getitem raw ''latitude'' \<and>
   getitem (normalize_columns raw) ''longitude'' = getitem raw ''longitude''"
  by (simp add: normalize_simps)

theorem coordinate_columns_copied_witness:
  "''latitude'' \<in> set (columns frame_both_coords) \<and>
   getitem (normalize_columns frame_both_coords) ''lat'' = Inr (NumCol [Some 2]) \<and>
   ''longitude'' \<in> set (columns frame_with_population) \<and>
   getitem (normalize_columns frame_with_population) ''lon''
     = Inr (NumCol [Some 73, Some 74]) \<and>
   ''latitude'' \<notin> set (columns frame_with_budget) \<and>
   getitem (normalize_columns frame_with_budget) ''lat'' = Inl (KeyError ''lat'') \<and>
   ''longitude'' \<notin> set (columns frame_with_budget) \<and>
   getitem (normalize_columns frame_with_budget) ''lon''
     = Inr (NumCol [Some 73, Some 74])"
  using coordinate_columns_copied [of frame_both_coords]
    coordinate_columns_copied [of frame_with_population]
    coordinate_columns_copied [of frame_with_budget]
  by (simp add: frame_both_coords_def frame_with_population_def frame_with_budget_def
      columns_def getitem_def)

section \<open>Auxiliary facts\<close>

lemma seq_Inr_iff: "seq r f = Inr v \<longleftrightarrow> (\<exists>a. r = Inr a \<and> f a = Inr v)"
  by (cases r) auto

lemma nrows_boolean_index [simp]: "nrows (boolean_index df m) = length (filter id m)"
  by (simp add: boolean_index_def)

lemma getitem_boolean_index:
  "getitem (boolean_index df m) k =
     (case getitem df k of Inl e \<Rightarrow> Inl e | Inr c \<Rightarrow> Inr (select_col m c))"
  by (simp add: getitem_def boolean_index_def map_of_map split: option.split)

lemma select_Nil [simp]: "select [] vs = []" "select m [] = []"
  by (simp_all add: select_def)

lemma select_Cons [simp]:
  "select (b # m) (v # vs) = (if b then v # select m vs else select m vs)"
  by (simp add: select_def)

lemma map_select: "map f (select m vs) = select m (map f vs)"
proof (induction m arbitrary: vs)
  case Nil
  show ?case by simp
next
  case (Cons b m)
  then show ?case by (cases vs) simp_all
qed

lemma cells_select_col: "cells (select_col m c) = select m (cells c)"
  by (cases c) (simp_all add: map_select)

lemma known_zone_simps [simp]:
  "known_zone (Str ''High Stress'')" "known_zone (Str ''Medium Stress'')"
  "known_zone (Str ''Low Stress'')"
  by (simp_all add: known_zone_def)

lemmas eval_frame = getitem_def boolean_index_def eq_mask_def select_def mean_def sum_col_def
  py_round_def count_zone_def

section \<open>The overview counts (C6)\<close>

lemma count_eq_mask:
  "length (filter id (eq_mask z s)) = length (filter (\<lambda>c. c = Str s) (cells z))"
  by (simp add: eq_mask_def filter_map comp_def)

lemma three_zone_counts_le:
  "length (filter (\<lambda>c. c = Str ''High Stress'') cs)
     + length (filter (\<lambda>c. c = Str ''Medium Stress'') cs)
     + length (filter (\<lambda>c. c = Str ''Low Stress'') cs) \<le> length cs"
  by (induction cs) auto

lemma three_zone_counts_eq:
  "\<forall>c \<in> set cs. known_zone c \<Longrightarrow>
   length (filter (\<lambda>c. c = Str ''High Stress'') cs)
     + length (filter (\<lambda>c. c = Str ''Medium Stress'') cs)
     + length (filter (\<lambda>c. c = Str ''Low Stress'') cs) = length cs"
  by (induction cs) (auto simp: known_zone_def)

lemma wf_frame_getitem:
  "wf_frame df \<Longrightarrow> getitem df k = Inr c \<Longrightarrow> length (cells c) = nrows df"
  by (auto simp: wf_frame_def getitem_def list_all_iff split: option.splits dest!: map_of_SomeD)

lemma overview_data_counts:
  assumes "overview_data df = Inr ov"
  shows "\<exists>z. getitem df ''stress_zone'' = Inr z \<and> total_wards ov = nrows df \<and>
     high_stress_count ov = length (filter (\<lambda>c. c = Str ''High Stress'') (cells z)) \<and>
     medium_stress_count ov = length (filter (\<lambda>c. c = Str ''Medium Stress'') (cells z)) \<and>
     low_stress_count ov = length (filter (\<lambda>c. c = Str ''Low Stress'') (cells z))"
  using assms unfolding overview_data_def count_zone_def
  by (auto simp: seq_Inr_iff count_eq_mask)

lemma get_overview_Some:
  "get_overview (Some df) = (OverviewJson ov, st) \<longleftrightarrow> overview_data df = Inr ov \<and> st = 200"
  by (auto simp: get_overview_def split: sum.splits)

lemma get_overview_three_wards:
  "get_overview (Some frame_three_wards) = (OverviewJson overview_three_wards, 200)"
  by (simp add: get_overview_def overview_data_def frame_three_wards_def
      overview_three_wards_def eval_frame)

lemma get_overview_two_wards:
  "get_overview (Some frame_two_wards) = (OverviewJson overview_two_wards, 200)"
  by (simp add: get_overview_def overview_data_def frame_two_wards_def
      overview_two_wards_def eval_frame)

text \<open>
  C6, as the claim has it, fails: the three counts look for the three known labels only,
  and a row with another label is in \<^verbatim>\<open>total_wards\<close> and in none of them. For the three
  wards, of which B is in zone \<^verbatim>\<open>Unknown\<close>, the counts are 1, 0 and 1 and the total is 3.
\<close>

theorem overview_counts_sum_counterexample:
  "get_overview (Some frame_three_wards) = (OverviewJson overview_three_wards, 200) \<and>
   high_stress_count overview_three_wards + medium_stress_count overview_three_wards
     + low_stress_count overview_three_wards \<noteq> total_wards overview_three_wards"
  by (simp add: get_overview_three_wards) (simp add: overview_three_wards_def)

text \<open>
  C6, amended. On a table whose every row carries one of the three known zone labels, the
  three counts of the overview add up to \<^verbatim>\<open>total_wards\<close>; on any table they add up to at
  most \<^verbatim>\<open>total_wards\<close>; without a table they are all 0.
\<close>

theorem overview_counts_sum:
  "(wf_frame df \<and> get_overview (Some df) = (OverviewJson ov, st) \<longrightarrow>
      high_stress_count ov + medium_stress_count ov + low_stress_count ov \<le> total_wards ov \<and>
      ((\<forall>z. getitem df ''stress_zone'' = Inr z \<longrightarrow> (\<forall>c \<in> set (cells z). known_zone c)) \<longrightarrow>
       high_stress_count ov + medium_stress_count ov + low_stress_count ov = total_wards ov)) \<and>
   (get_overview None = (OverviewJson ov', st') \<longrightarrow>
      high_stress_count ov' + medium_stress_count ov' + low_stress_count ov' = total_wards ov' \<and>
      total_wards ov' = 0)"
proof (intro conjI impI)
  assume a: "wf_frame df \<and> get_overview (Some df) = (OverviewJson ov, st)"
  then obtain z where z: "getitem df ''stress_zone'' = Inr z" "total_wards ov = nrows df"
    "high_stress_count ov = length (filter (\<lambda>c. c = Str ''High Stress'') (cells z))"
    "medium_stress_count ov = length (filter (\<lambda>c. c = Str ''Medium Stress'') (cells z))"
    "low_stress_count ov = length (filter (\<lambda>c. c = Str ''Low Stress'') (cells z))"
    using overview_data_counts [of df ov] by (auto simp: get_overview_Some)
  have len: "length (cells z) = nrows df"
    using a z(1) by (simp add: wf_frame_getitem)
  show "high_stress_count ov + medium_stress_count ov + low_stress_count ov \<le> total_wards ov"
    using three_zone_counts_le [of "cells z"] by (simp add: z len)
  assume "\<forall>z. getitem df ''stress_zone'' = Inr z \<longrightarrow> (\<forall>c \<in> set (cells z). known_zone c)"
  then have "\<forall>c \<in> set (cells z). known_zone c" using z(1) by blast
  then show "high_stress_count ov + medium_stress_count ov + low_stress_count ov = total_wards ov"
    using three_zone_counts_eq [of "cells z"] by (simp add: z len)
next
  assume "get_overview None = (OverviewJson ov', st')"
  then show "high_stress_count ov' + medium_stress_count ov' + low_stress_count ov'
      = total_wards ov'"
    by (auto simp: get_overview_def)
next
  assume "get_overview None = (OverviewJson ov', st')"
  then show "total_wards ov' = 0"
    by (auto simp: get_overview_def)
qed

theorem overview_counts_sum_witness:
  "wf_frame frame_two_wards \<and>
   get_overview (Some frame_two_wards) = (OverviewJson overview_two_wards, 200) \<and>
   getitem frame_two_wards ''stress_zone'' = Inr (StrCol [Some ''High Stress'', Some ''Low Stress'']) \<and>
   known_zone (Str ''High Stress'') \<and> known_zone (Str ''Low Stress'') \<and>
   high_stress_count overview_two_wards + medium_stress_count overview_two_wards
     + low_stress_count overview_two_wards = total_wards overview_two_wards \<and>
   total_wards overview_two_wards = 2"
proof -
  have wf: "wf_frame frame_two_wards"
    by (simp add: wf_frame_def frame_two_wards_def)
  have z: "getitem frame_two_wards ''stress_zone''
      = Inr (StrCol [Some ''High Stress'', Some ''Low Stress''])"
    by (simp add: getitem_def frame_two_wards_def)
  have k: "\<forall>z. getitem frame_two_wards ''stress_zone'' = Inr z \<longrightarrow>
      (\<forall>c \<in> set (cells z). known_zone c)"
    by (simp add: z)
  have "high_stress_count overview_two_wards + medium_stress_count overview_two_wards
     + low_stress_count overview_two_wards = total_wards overview_two_wards"
    using overview_counts_sum [of frame_two_wards overview_two_wards 200] wf k
      get_overview_two_wards
    by blast
  then show ?thesis
    using wf z get_overview_two_wards by (simp add: overview_two_wards_def)
qed


section \<open>The marker radius (C9)\<close>

lemma marker_radius_range: "marker_radius c = Inr r \<Longrightarrow> 8 \<le> r \<and> r \<le> 25"
  by (cases c) auto

lemma marker_radius_spec_clamp:
  "marker_radius (Num esi) = Inr (spec_clamp (5 + esi * 20) 8 25)"
  by (simp add: spec_clamp_def max_def min_def)

lemma spec_clamp_range: "lo \<le> hi \<Longrightarrow> lo \<le> spec_clamp v lo hi \<and> spec_clamp v lo hi \<le> hi"
  by (simp add: spec_clamp_def)

lemma map_err_Inr: "map_err f as = Inr bs \<Longrightarrow> list_all2 (\<lambda>a b. f a = Inr b) as bs"
  by (induction as arbitrary: bs) (auto simp: seq_Inr_iff)

lemma make_marker_radius:
  "make_marker parse row = Inr m \<Longrightarrow>
   \<exists>e. dict_getitem row ''esi'' = Inr e \<and> marker_radius e = Inr (radius m)"
  unfolding make_marker_def Let_def by (auto simp: seq_Inr_iff)

lemma get_map_Some:
  "get_map parse (Some df) = (MapHtml ms, st) \<longleftrightarrow>
     map_err (make_marker parse) (iterrows df) = Inr ms \<and> st = 200"
  by (auto simp: get_map_def split: sum.splits)

lemma get_map_three_wards:
  "get_map (\<lambda>s. None) (Some frame_three_wards) = (MapHtml markers_three_wards, 200)"
  by (simp add: get_map_def iterrows_def row_at_def cell_at_def frame_three_wards_def upt_rec
      numeral_3_eq_3 make_marker_def dict_getitem_def zone_color_def colors_map_def
      markers_three_wards_def)

text \<open>
  C9. The radius computed for a row is \<open>clamp(5 + esi * 20, 8, 25)\<close> in the specification's
  sense, for every number \<open>esi\<close>, and lies in \<open>[8, 25]\<close>; and in the map every marker, in
  the order of the rows, has the radius computed from its row's \<^verbatim>\<open>esi\<close>, within
  \<open>[8, 25]\<close>.
\<close>

theorem marker_radius_clamped:
  "marker_radius (Num esi) = Inr (spec_clamp (5 + esi * 20) 8 25) \<and>
   8 \<le> spec_clamp (5 + esi * 20) 8 25 \<and> spec_clamp (5 + esi * 20) 8 25 \<le> 25 \<and>
   (get_map parse (Some df) = (MapHtml markers, st) \<longrightarrow>
      list_all2 (\<lambda>row m. \<exists>e. dict_getitem row ''esi'' = Inr e \<and>
                   marker_radius e = Inr (radius m) \<and> 8 \<le> radius m \<and> radius m \<le> 25)
        (iterrows df) markers)"
proof (intro conjI impI)
  show "marker_radius (Num esi) = Inr (spec_clamp (5 + esi * 20) 8 25)"
    by (rule marker_radius_spec_clamp)
  show "8 \<le> spec_clamp (5 + esi * 20) 8 25" "spec_clamp (5 + esi * 20) 8 25 \<le> 25"
    using spec_clamp_range [of 8 25 "5 + esi * 20"] by simp_all
  assume "get_map parse (Some df) = (MapHtml markers, st)"
  then have "list_all2 (\<lambda>row m. make_marker parse row = Inr m) (iterrows df) markers"
    by (simp add: get_map_Some map_err_Inr)
  then show "list_all2 (\<lambda>row m. \<exists>e. dict_getitem row ''esi'' = Inr e \<and>
                   marker_radius e = Inr (radius m) \<and> 8 \<le> radius m \<and> radius m \<le> 25)
        (iterrows df) markers"
    by (rule list_all2_mono) (use make_marker_radius marker_radius_range in blast)
qed

theorem marker_radius_clamped_witness:
  "get_map (\<lambda>s. None) (Some frame_three_wards) = (MapHtml markers_three_wards, 200) \<and>
   length (iterrows frame_three_wards) = 3 \<and>
   map radius markers_three_wards = [19, 8, 25] \<and>
   list_all (\<lambda>m. 8 \<le> radius m \<and> radius m \<le> 25) markers_three_wards"
proof -
  have "list_all2 (\<lambda>row m. \<exists>e. dict_getitem row ''esi'' = Inr e \<and>
            marker_radius e = Inr (radius m) \<and> 8 \<le> radius m \<and> radius m \<le> 25)
          (iterrows frame_three_wards) markers_three_wards"
    using marker_radius_clamped [of 0 "\<lambda>s. None" frame_three_wards markers_three_wards 200]
      get_map_three_wards
    by blast
  then have "list_all (\<lambda>m. 8 \<le> radius m \<and> radius m \<le> 25) markers_three_wards"
    by (auto simp: list_all2_conv_all_nth list_all_length)
  then show ?thesis
    using get_map_three_wards
    by (simp add: iterrows_def frame_three_wards_def) (simp add: markers_three_wards_def)
qed

section \<open>Rows outside the three zones (C10)\<close>

lemma select_narrower:
  assumes "\<And>v. Q v \<Longrightarrow> P v"
  shows "select (select (map P zs) (map Q zs)) (select (map P zs) vs) = select (map Q zs) vs"
proof (induction zs arbitrary: vs)
  case Nil
  show ?case by simp
next
  case (Cons z zs)
  then show ?case using assms by (cases vs) auto
qed

lemma count_narrower:
  assumes "\<And>v. Q v \<Longrightarrow> P v"
  shows "length (filter id (select (map P zs) (map Q zs))) = length (filter id (map Q zs))"
  using assms by (induction zs) auto

lemma select_col_narrower:
  assumes "\<And>v. Q v \<Longrightarrow> P v"
  shows "select_col (select (map P zs) (map Q zs)) (select_col (map P zs) c)
           = select_col (map Q zs) c"
  by (cases c) (simp_all add: select_narrower [of Q P, OF assms])

lemma boolean_index_narrower:
  assumes "\<And>v. Q v \<Longrightarrow> P v"
  shows "boolean_index (boolean_index df (map P zs)) (select (map P zs) (map Q zs))
           = boolean_index df (map Q zs)"
  using count_narrower [of Q P zs, OF assms] select_col_narrower [of Q P zs, OF assms]
  by (simp add: boolean_index_def case_prod_unfold comp_def)

lemma add_zone_trace_known_rows:
  assumes z: "getitem df ''stress_zone'' = Inr z" and k: "known_zone (Str zone)"
  shows "add_zone_trace (boolean_index df (map known_zone (cells z))) zone fig
           = add_zone_trace df zone fig"
proof -
  have "boolean_index (boolean_index df (map known_zone (cells z)))
          (select (map known_zone (cells z)) (map (\<lambda>v. v = Str zone) (cells z)))
        = boolean_index df (map (\<lambda>v. v = Str zone) (cells z))"
    by (rule boolean_index_narrower) (use k in simp)
  then show ?thesis
    unfolding add_zone_trace_def
    by (simp add: z getitem_boolean_index [of df] eq_mask_def cells_select_col map_select
        del: nrows_boolean_index)
qed

lemma add_zone_traces_known_rows:
  assumes "getitem df ''stress_zone'' = Inr z" and "\<forall>zone \<in> set zones. known_zone (Str zone)"
  shows "add_zone_traces (boolean_index df (map known_zone (cells z))) zones fig
           = add_zone_traces df zones fig"
  using assms(2)
proof (induction zones arbitrary: fig)
  case Nil
  show ?case by simp
next
  case (Cons zone zones)
  then have "add_zone_traces (boolean_index df (map known_zone (cells z))) zones
               = add_zone_traces df zones"
    by (intro ext) simp
  then show ?case
    using Cons.prems by (simp add: add_zone_trace_known_rows [OF assms(1)])
qed

lemma pm25_green_known_rows:
  assumes "getitem df ''stress_zone'' = Inr z"
  shows "pm25_green (Some (boolean_index df (map known_zone (cells z)))) = pm25_green (Some df)"
proof -
  have "add_zone_traces (boolean_index df (map known_zone (cells z)))
          [''Low Stress'', ''Medium Stress'', ''High Stress''] []
        = add_zone_traces df [''Low Stress'', ''Medium Stress'', ''High Stress''] []"
    by (rule add_zone_traces_known_rows [OF assms]) simp
  then show ?thesis
    by (simp only: pm25_green_def option.case)
qed

lemma add_zone_trace_series:
  assumes "add_zone_trace df zone fig = Inr fig'" "known_zone (Str zone)"
    "\<forall>t \<in> set fig. series_of df t"
  shows "\<forall>t \<in> set fig'. series_of df t"
  using assms unfolding add_zone_trace_def Let_def
  by (auto simp: seq_Inr_iff series_of_def Let_def split: if_splits)

lemma add_zone_traces_series:
  assumes "add_zone_traces df zones fig = Inr fig'"
    "\<forall>zone \<in> set zones. known_zone (Str zone)" "\<forall>t \<in> set fig. series_of df t"
  shows "\<forall>t \<in> set fig'. series_of df t"
  using assms
proof (induction zones arbitrary: fig)
  case Nil
  then show ?case by simp
next
  case (Cons zone zones)
  from Cons.prems(1) obtain fig1 where
    1: "add_zone_trace df zone fig = Inr fig1" and 2: "add_zone_traces df zones fig1 = Inr fig'"
    by (auto simp: seq_Inr_iff)
  have "\<forall>t \<in> set fig1. series_of df t"
    using add_zone_trace_series [OF 1] Cons.prems by simp
  then show ?case using Cons.IH [OF 2] Cons.prems by simp
qed

lemma pm25_green_Some:
  "pm25_green (Some df) = (ScatterJson fig, st) \<longleftrightarrow>
     add_zone_traces df [''Low Stress'', ''Medium Stress'', ''High Stress''] [] = Inr fig \<and>
     st = 200"
  by (auto simp: pm25_green_def split: sum.splits)

lemma pm25_green_three_wards:
  "pm25_green (Some frame_three_wards) = (ScatterJson traces_three_wards, 200)"
  by (simp add: pm25_green_def add_zone_trace_def frame_three_wards_def eval_frame
      dict_getitem_def colors_map_def traces_three_wards_def)

text \<open>
  C10. Every series of the scatter chart is the series of one of the three known zones and
  holds the rows of that zone; taking the rows of any other zone out of the table leaves the
  whole response as it is. The overview's \<^verbatim>\<open>total_wards\<close> is the number of all rows.
\<close>

theorem unknown_zone_rows_in_no_series:
  "(pm25_green (Some df) = (ScatterJson fig, st) \<longrightarrow> (\<forall>t \<in> set fig. series_of df t)) \<and>
   (getitem df ''stress_zone'' = Inr z \<longrightarrow>
      pm25_green (Some (boolean_index df (map known_zone (cells z)))) = pm25_green (Some df)) \<and>
   (get_overview (Some df) = (OverviewJson ov, st') \<longrightarrow> total_wards ov = nrows df)"
proof (intro conjI impI)
  assume "pm25_green (Some df) = (ScatterJson fig, st)"
  then have "add_zone_traces df [''Low Stress'', ''Medium Stress'', ''High Stress''] [] = Inr fig"
    by (simp add: pm25_green_Some)
  then show "\<forall>t \<in> set fig. series_of df t"
    by (rule add_zone_traces_series) simp_all
next
  assume "getitem df ''stress_zone'' = Inr z"
  then show "pm25_green (Some (boolean_index df (map known_zone (cells z))))
      = pm25_green (Some df)"
    by (rule pm25_green_known_rows)
next
  assume "get_overview (Some df) = (OverviewJson ov, st')"
  then show "total_wards ov = nrows df"
    using overview_data_counts [of df ov] by (auto simp: get_overview_Some)
qed

theorem unknown_zone_rows_in_no_series_witness:
  "getitem frame_three_wards ''stress_zone'' = Inr zones_three_wards \<and>
   map known_zone (cells zones_three_wards) = [True, False, True] \<and>
   pm25_green (Some frame_three_wards) = (ScatterJson traces_three_wards, 200) \<and>
   pm25_green (Some (boolean_index frame_three_wards [True, False, True]))
     = (ScatterJson traces_three_wards, 200) \<and>
   list_all (series_of frame_three_wards) traces_three_wards \<and>
   get_overview (Some frame_three_wards) = (OverviewJson overview_three_wards, 200) \<and>
   total_wards overview_three_wards = 3"
proof -
  have z: "getitem frame_three_wards ''stress_zone'' = Inr zones_three_wards"
    by (simp add: getitem_def frame_three_wards_def zones_three_wards_def)
  have m: "map known_zone (cells zones_three_wards) = [True, False, True]"
    by (simp add: zones_three_wards_def known_zone_def)
  note c10 = unknown_zone_rows_in_no_series [of frame_three_wards traces_three_wards 200
      zones_three_wards overview_three_wards 200]
  have 1: "\<forall>t \<in> set traces_three_wards. series_of frame_three_wards t"
    using c10 pm25_green_three_wards by blast
  have 2: "pm25_green (Some (boolean_index frame_three_wards [True, False, True]))
      = pm25_green (Some frame_three_wards)"
    using c10 z m by simp
  have 3: "total_wards overview_three_wards = nrows frame_three_wards"
    using c10 get_overview_three_wards by blast
  show ?thesis
    using 1 2 3 z m pm25_green_three_wards get_overview_three_wards
    by (simp add: list_all_iff) (simp add: frame_three_wards_def)
qed


section \<open>The order and the colours of the pie chart (C4, C5)\<close>

lemma fst_count_into:
  "map fst (count_into k acc) =
     (if k \<in> set (map fst acc) then map fst acc else map fst acc @ [k])"
proof (induction acc)
  case Nil
  show ?case by simp
next
  case (Cons p acc)
  obtain k' n where p: "p = (k', n)" by (cases p)
  have "(k', n) \<in> set acc \<Longrightarrow> k' \<in> fst ` set acc" for k' n
    by force
  then show ?case using Cons.IH by (auto simp: p)
qed

lemma map_of_count_into:
  "map_of (count_into k acc) k' =
     (if k' = k then Some (case map_of acc k of None \<Rightarrow> 1 | Some n \<Rightarrow> n + 1)
      else map_of acc k')"
  by (induction acc) auto

lemma fold_count_into:
  assumes "distinct (map fst acc)" "\<forall>(k, n) \<in> set acc. 0 < n"
  shows "distinct (map fst (fold count_into vs acc)) \<and>
         fst ` set (fold count_into vs acc) = fst ` set acc \<union> set vs \<and>
         (\<forall>(k, n) \<in> set (fold count_into vs acc). 0 < n) \<and>
         (\<forall>k. tally (fold count_into vs acc) k = tally acc k + length (filter (\<lambda>c. c = k) vs))"
  using assms
proof (induction vs arbitrary: acc)
  case Nil
  then show ?case by simp
next
  case (Cons a vs)
  have d: "distinct (map fst (count_into a acc))"
    using Cons.prems(1) by (simp add: fst_count_into)
  have s: "fst ` set (count_into a acc) = insert a (fst ` set acc)"
  proof -
    have "set (map fst (count_into a acc)) = insert a (set (map fst acc))"
      by (auto simp: fst_count_into)
    then show ?thesis by simp
  qed
  have p: "\<forall>(k, n) \<in> set (count_into a acc). 0 < n"
    using Cons.prems(2) by (induction acc) (auto split: if_splits)
  have t: "\<And>k. tally (count_into a acc) k = tally acc k + (if a = k then 1 else 0)"
    by (auto simp: tally_def map_of_count_into split: option.splits)
  show ?case
    using Cons.IH [OF d p] by (auto simp: s t)
qed

lemma set_sort_descending [simp]: "set (sort_descending f vs) = set vs"
  by (simp add: sort_descending_def)

lemma sorted_sort_descending: "sorted_wrt (\<ge>) (map f (sort_descending f vs))"
  by (simp add: sort_descending_def rev_map [symmetric] sorted_wrt_rev)

lemma distinct_fst_sort_descending:
  "distinct (map fst vs) \<Longrightarrow> distinct (map fst (sort_descending f vs))"
  by (simp add: distinct_map sort_descending_def)

lemma value_counts_props:
  "sorted_wrt (\<ge>) (map snd (value_counts c)) \<and>
   distinct (map fst (value_counts c)) \<and>
   set (map fst (value_counts c)) = set (cells c) - {NaN} \<and>
   (\<forall>(l, n) \<in> set (value_counts c). 0 < n \<and> n = length (filter (\<lambda>v. v = l) (cells c)))"
proof -
  let ?vs = "filter (\<lambda>v. v \<noteq> NaN) (cells c)"
  let ?acc = "fold count_into ?vs []"
  have f: "distinct (map fst ?acc)" "fst ` set ?acc = set ?vs"
    "\<forall>(k, n) \<in> set ?acc. 0 < n"
    "\<And>k. tally ?acc k = length (filter (\<lambda>v. v = k) ?vs)"
    using fold_count_into [of "[]" ?vs] by (simp_all add: tally_def)
  have cnt: "n = length (filter (\<lambda>v. v = l) (cells c))" if "(l, n) \<in> set ?acc" for l n
  proof -
    have "map_of ?acc l = Some n" using that f(1) by simp
    then have "n = length (filter (\<lambda>v. v = l) ?vs)"
      using f(4) [of l] by (simp add: tally_def)
    moreover have "l \<in> fst ` set ?acc" using that by force
    then have "l \<noteq> NaN" unfolding f(2) by simp
    ultimately show ?thesis by (simp add: conj_commute cong: conj_cong)
  qed
  show ?thesis
    unfolding value_counts_def first_seen_counts_def
    using f(1,3) f(2) cnt
    by (auto simp: sorted_sort_descending distinct_fst_sort_descending)
qed

lemma stress_distribution_Some:
  "stress_distribution (Some df) = (PieJson p, st) \<longleftrightarrow> stress_pie df = Inr p \<and> st = 200"
  by (auto simp: stress_distribution_def split: sum.splits)

lemmas eval_pie = stress_distribution_def stress_pie_def getitem_def value_counts_def
  first_seen_counts_def sort_descending_def

lemma stress_distribution_low_high_high:
  "stress_distribution (Some frame_low_high_high) = (PieJson pie_low_high_high, 200)"
  by (simp add: eval_pie frame_low_high_high_def pie_low_high_high_def)

text \<open>
  C4, as the claim has it, fails: \<^verbatim>\<open>value_counts()\<close> sorts by count. With the zones met
  in the order Low, High, High the labels come out as High, Low; the order of first
  appearance is Low, High.
\<close>

theorem first_seen_order_counterexample:
  "stress_distribution (Some frame_low_high_high) = (PieJson pie_low_high_high, 200) \<and>
   labels pie_low_high_high = [Str ''High Stress'', Str ''Low Stress''] \<and>
   map fst (first_seen_counts
       (StrCol [Some ''Low Stress'', Some ''High Stress'', Some ''High Stress'']))
     = [Str ''Low Stress'', Str ''High Stress'']"
  by (simp add: stress_distribution_low_high_high)
    (simp add: pie_low_high_high_def first_seen_counts_def)

text \<open>
  C4, amended. The (label, count) pairs of the pie chart come in descending order of
  count. Every zone value of the table appears once, missing entries apart, with the number
  of rows that carry it.
\<close>

theorem stress_distribution_by_count:
  "stress_distribution (Some df) = (PieJson p, st) \<longrightarrow>
     sorted_wrt (\<ge>) (pie_values p) \<and> distinct (labels p) \<and>
     length (labels p) = length (pie_values p) \<and>
     (\<forall>z. getitem df ''stress_zone'' = Inr z \<longrightarrow>
        set (labels p) = set (cells z) - {NaN} \<and>
        (\<forall>(l, n) \<in> set (zip (labels p) (pie_values p)).
           0 < n \<and> n = length (filter (\<lambda>v. v = l) (cells z))))"
proof
  assume "stress_distribution (Some df) = (PieJson p, st)"
  then obtain z where z: "getitem df ''stress_zone'' = Inr z" and
    p: "labels p = map fst (value_counts z)" "pie_values p = map snd (value_counts z)"
    by (auto simp: stress_distribution_Some stress_pie_def seq_Inr_iff Let_def)
  have zip: "zip (labels p) (pie_values p) = value_counts z"
    by (simp add: p zip_map_fst_snd)
  show "sorted_wrt (\<ge>) (pie_values p) \<and> distinct (labels p) \<and>
     length (labels p) = length (pie_values p) \<and>
     (\<forall>z. getitem df ''stress_zone'' = Inr z \<longrightarrow>
        set (labels p) = set (cells z) - {NaN} \<and>
        (\<forall>(l, n) \<in> set (zip (labels p) (pie_values p)).
           0 < n \<and> n = length (filter (\<lambda>v. v = l) (cells z))))"
    using value_counts_props [of z] unfolding zip by (simp add: p z)
qed

theorem stress_distribution_by_count_witness:
  "stress_distribution (Some frame_low_high_high) = (PieJson pie_low_high_high, 200) \<and>
   pie_values pie_low_high_high = [2, 1] \<and>
   sorted_wrt (\<ge>) (pie_values pie_low_high_high) \<and>
   distinct (labels pie_low_high_high)"
proof -
  have "sorted_wrt (\<ge>) (pie_values pie_low_high_high) \<and> distinct (labels pie_low_high_high)"
    using stress_distribution_by_count [of frame_low_high_high pie_low_high_high 200]
      stress_distribution_low_high_high
    by blast
  then show ?thesis
    using stress_distribution_low_high_high by (simp add: pie_low_high_high_def)
qed

text \<open>
  C5 holds for \<^verbatim>\<open>pm25_green\<close> and \<^verbatim>\<open>get_map\<close>, which look the colour up by zone, and
  not for the pie chart, which passes the three colours as a list: they go to the labels by
  position, and the position depends on the counts. With the zones Low, Low, High the
  first label is Low Stress and is drawn red, and High Stress is drawn orange.
\<close>

theorem pie_colors_by_position:
  "stress_distribution (Some frame_low_low_high) = (PieJson pie_low_low_high, 200) \<and>
   map_of (sector_colors pie_low_low_high) (Str ''Low Stress'') = Some ''#e74c3c'' \<and>
   map_of (sector_colors pie_low_low_high) (Str ''High Stress'') = Some ''#f39c12'' \<and>
   dict_getitem colors_map ''Low Stress'' = Inr ''#2ecc71'' \<and>
   dict_getitem colors_map ''High Stress'' = Inr ''#e74c3c''"
  by (simp add: eval_pie frame_low_low_high_def pie_low_low_high_def sector_colors_def
      dict_getitem_def colors_map_def)

section \<open>The status of every route (C1)\<close>

text \<open>
  C1, as the claim has it, fails: the \<^verbatim>\<open>except\<close> branches of \<^verbatim>\<open>get_overview\<close>,
  \<^verbatim>\<open>stress_distribution\<close> and \<^verbatim>\<open>pm25_green\<close> return status 500. A table without a
  \<^verbatim>\<open>stress_zone\<close> column makes each of them raise \<^verbatim>\<open>KeyError\<close>.
\<close>

theorem status_500_counterexample:
  "get_overview (Some frame_no_zone) = (ErrorJson (KeyError ''stress_zone''), 500) \<and>
   stress_distribution (Some frame_no_zone) = (ErrorJson (KeyError ''stress_zone''), 500) \<and>
   pm25_green (Some frame_no_zone) = (ErrorJson (KeyError ''stress_zone''), 500)"
  by (simp add: get_overview_def overview_data_def count_zone_def stress_distribution_def
      stress_pie_def pm25_green_def add_zone_trace_def getitem_def frame_no_zone_def)

lemma get_insights_two_wards:
  "get_insights (Some frame_two_wards) = (CardsJson cards_two_wards, 200)"
  by (simp add: get_insights_def insights_cards_def card_critical_def card_pollution_def
      card_green_def card_population_def card_budget_def high_stress_sum_def py_div_def
      opt_cell_def columns_def row_at_def cell_at_def dict_getitem_def map_filter_def
      enumerate_eq_zip upt_rec numeral_2_eq_2
      frame_two_wards_def cards_two_wards_def eval_frame)

text \<open>
  C1, amended. Without a table every route answers 200: the overview with the all-zero
  object, the two charts with \<^verbatim>\<open>{'data': [], 'layout': {}}\<close>, the map with the
  \<^verbatim>\<open>Error: No data\<close> fragment, wards and insights with the empty list, the FAQ with its
  five fixed entries. With a table, the FAQ answers 200 with its five entries;
  \<^verbatim>\<open>/api/map\<close>, \<^verbatim>\<open>/api/wards\<close> and \<^verbatim>\<open>/api/insights\<close> answer 200 whatever happens,
  with their result when nothing raises and otherwise with the error fragment (map) or the
  empty list (wards, insights); \<^verbatim>\<open>/api/overview\<close>, \<^verbatim>\<open>/api/stress-distribution\<close> and
  \<^verbatim>\<open>/api/pm25-green\<close> answer 200 with their result when their computation raises
  nothing and otherwise 500 with the body \<^verbatim>\<open>{'error': message}\<close>.
\<close>

theorem status_by_endpoint:
  "snd (handle so parse ep None) = 200 \<and>
   (ep \<in> {ApiMap, ApiWards, ApiInsights, ApiFaq} \<longrightarrow> snd (handle so parse ep (Some df)) = 200) \<and>
   snd (handle so parse ApiOverview (Some df)) = (if isl (overview_data df) then 500 else 200) \<and>
   snd (handle so parse ApiStressDistribution (Some df))
     = (if isl (stress_pie df) then 500 else 200) \<and>
   snd (handle so parse ApiPm25Green (Some df))
     = (if isl (add_zone_traces df [''Low Stress'', ''Medium Stress'', ''High Stress''] [])
        then 500 else 200) \<and>
   (overview_data df = Inl e \<longrightarrow> handle so parse ApiOverview (Some df) = (ErrorJson e, 500)) \<and>
   (stress_pie df = Inl e \<longrightarrow>
      handle so parse ApiStressDistribution (Some df) = (ErrorJson e, 500)) \<and>
   (add_zone_traces df [''Low Stress'', ''Medium Stress'', ''High Stress''] [] = Inl e \<longrightarrow>
      handle so parse ApiPm25Green (Some df) = (ErrorJson e, 500)) \<and>
   handle so parse ApiOverview None
     = (OverviewJson \<lparr>total_wards = 0, high_stress_count = 0, medium_stress_count = 0,
                      low_stress_count = 0, avg_pm25 = Some 0, avg_esi = Some 0\<rparr>, 200) \<and>
   handle so parse ApiStressDistribution None = (EmptyFigureJson, 200) \<and>
   handle so parse ApiPm25Green None = (EmptyFigureJson, 200) \<and>
   handle so parse ApiMap None = (NoDataHtml, 200) \<and>
   handle so parse ApiWards None = (WardsJson [], 200) \<and>
   handle so parse ApiInsights None = (CardsJson [], 200) \<and>
   handle so parse ApiFaq None = get_faq \<and>
   handle so parse ApiFaq (Some df) = get_faq \<and>
   (\<exists>questions. get_faq = (FaqJson questions, 200) \<and> length questions = 5) \<and>
   (map_err (make_marker parse) (iterrows df) = Inl e \<longrightarrow>
      handle so parse ApiMap (Some df) = (ErrorHtml e, 200)) \<and>
   (map_err (make_marker parse) (iterrows df) = Inr markers \<longrightarrow>
      handle so parse ApiMap (Some df) = (MapHtml markers, 200)) \<and>
   (wards_records so df = Inl e \<longrightarrow> handle so parse ApiWards (Some df) = (WardsJson [], 200)) \<and>
   (wards_records so df = Inr records \<longrightarrow>
      handle so parse ApiWards (Some df) = (WardsJson records, 200)) \<and>
   (insights_cards df = Inl e \<longrightarrow> handle so parse ApiInsights (Some df) = (CardsJson [], 200)) \<and>
   (insights_cards df = Inr insights \<longrightarrow>
      handle so parse ApiInsights (Some df) = (CardsJson insights, 200)) \<and>
   (overview_data df = Inr data \<longrightarrow> handle so parse ApiOverview (Some df) = (OverviewJson data, 200)) \<and>
   (stress_pie df = Inr p \<longrightarrow> handle so parse ApiStressDistribution (Some df) = (PieJson p, 200)) \<and>
   (add_zone_traces df [''Low Stress'', ''Medium Stress'', ''High Stress''] [] = Inr fig \<longrightarrow>
      handle so parse ApiPm25Green (Some df) = (ScatterJson fig, 200))"
proof -
  have none_and_always:
    "snd (handle so parse ep None) = 200 \<and>
     (ep \<in> {ApiMap, ApiWards, ApiInsights, ApiFaq} \<longrightarrow> snd (handle so parse ep (Some df)) = 200)"
    by (cases ep)
      (simp_all add: handle_def get_overview_def stress_distribution_def pm25_green_def
        get_map_def get_wards_def get_insights_def get_faq_def split: sum.split)
  have faq: "\<exists>questions. get_faq = (FaqJson questions, 200) \<and> length questions = 5"
    by (simp add: get_faq_def)
  have overview:
    "snd (handle so parse ApiOverview (Some df)) = (if isl (overview_data df) then 500 else 200)"
    "overview_data df = Inl e \<longrightarrow> handle so parse ApiOverview (Some df) = (ErrorJson e, 500)"
    "overview_data df = Inr data \<longrightarrow> handle so parse ApiOverview (Some df) = (OverviewJson data, 200)"
    "handle so parse ApiOverview None
       = (OverviewJson \<lparr>total_wards = 0, high_stress_count = 0, medium_stress_count = 0,
                        low_stress_count = 0, avg_pm25 = Some 0, avg_esi = Some 0\<rparr>, 200)"
    by (simp_all add: handle_def get_overview_def split: sum.split)
  have pie:
    "snd (handle so parse ApiStressDistribution (Some df))
       = (if isl (stress_pie df) then 500 else 200)"
    "stress_pie df = Inl e \<longrightarrow>
       handle so parse ApiStressDistribution (Some df) = (ErrorJson e, 500)"
    "stress_pie df = Inr p \<longrightarrow> handle so parse ApiStressDistribution (Some df) = (PieJson p, 200)"
    "handle so parse ApiStressDistribution None = (EmptyFigureJson, 200)"
    by (simp_all add: handle_def stress_distribution_def split: sum.split)
  have scatter:
    "snd (handle so parse ApiPm25Green (Some df))
       = (if isl (add_zone_traces df [''Low Stress'', ''Medium Stress'', ''High Stress''] [])
          then 500 else 200)"
    "add_zone_traces df [''Low Stress'', ''Medium Stress'', ''High Stress''] [] = Inl e \<longrightarrow>
       handle so parse ApiPm25Green (Some df) = (ErrorJson e, 500)"
    "add_zone_traces df [''Low Stress'', ''Medium Stress'', ''High Stress''] [] = Inr fig \<longrightarrow>
       handle so parse ApiPm25Green (Some df) = (ScatterJson fig, 200)"
    "handle so parse ApiPm25Green None = (EmptyFigureJson, 200)"
    by (simp_all only: handle_def pm25_green_def endpoint.case option.case)
      (simp_all split: sum.split)
  have rest:
    "handle so parse ApiMap None = (NoDataHtml, 200)"
    "handle so parse ApiWards None = (WardsJson [], 200)"
    "handle so parse ApiInsights None = (CardsJson [], 200)"
    "handle so parse ApiFaq None = get_faq"
    "handle so parse ApiFaq (Some df) = get_faq"
    "map_err (make_marker parse) (iterrows df) = Inl e \<longrightarrow>
       handle so parse ApiMap (Some df) = (ErrorHtml e, 200)"
    "map_err (make_marker parse) (iterrows df) = Inr markers \<longrightarrow>
       handle so parse ApiMap (Some df) = (MapHtml markers, 200)"
    "wards_records so df = Inl e \<longrightarrow> handle so parse ApiWards (Some df) = (WardsJson [], 200)"
    "wards_records so df = Inr records \<longrightarrow>
       handle so parse ApiWards (Some df) = (WardsJson records, 200)"
    "insights_cards df = Inl e \<longrightarrow> handle so parse ApiInsights (Some df) = (CardsJson [], 200)"
    "insights_cards df = Inr insights \<longrightarrow>
       handle so parse ApiInsights (Some df) = (CardsJson insights, 200)"
    by (simp_all add: handle_def get_map_def get_wards_def get_insights_def)
  show ?thesis
    using none_and_always faq overview pie scatter rest by blast
qed

theorem status_by_endpoint_witness:
  "ApiInsights \<in> {ApiMap, ApiWards, ApiInsights, ApiFaq} \<and>
   snd (handle (\<lambda>c. []) (\<lambda>s. None) ApiInsights (Some frame_no_zone)) = 200 \<and>
   snd (handle (\<lambda>c. []) (\<lambda>s. None) ApiInsights None) = 200 \<and>
   overview_data frame_no_zone = Inl (KeyError ''stress_zone'') \<and>
   handle (\<lambda>c. []) (\<lambda>s. None) ApiOverview (Some frame_no_zone)
     = (ErrorJson (KeyError ''stress_zone''), 500) \<and>
   stress_pie frame_no_zone = Inl (KeyError ''stress_zone'') \<and>
   handle (\<lambda>c. []) (\<lambda>s. None) ApiStressDistribution (Some frame_no_zone)
     = (ErrorJson (KeyError ''stress_zone''), 500) \<and>
   snd (handle (\<lambda>c. []) (\<lambda>s. None) ApiOverview (Some frame_two_wards)) = 200 \<and>
   map_err (make_marker (\<lambda>s. None)) (iterrows frame_no_zone) = Inl (KeyError ''stress_zone'') \<and>
   handle (\<lambda>c. []) (\<lambda>s. None) ApiMap (Some frame_no_zone)
     = (ErrorHtml (KeyError ''stress_zone''), 200) \<and>
   wards_records (\<lambda>c. []) frame_no_zone = Inl (KeyError ''pm25'') \<and>
   handle (\<lambda>c. []) (\<lambda>s. None) ApiWards (Some frame_no_zone) = (WardsJson [], 200) \<and>
   insights_cards frame_no_zone = Inl (KeyError ''stress_zone'') \<and>
   handle (\<lambda>c. []) (\<lambda>s. None) ApiInsights (Some frame_no_zone) = (CardsJson [], 200) \<and>
   overview_data frame_two_wards = Inr overview_two_wards \<and>
   handle (\<lambda>c. []) (\<lambda>s. None) ApiOverview (Some frame_two_wards)
     = (OverviewJson overview_two_wards, 200) \<and>
   insights_cards frame_two_wards = Inr cards_two_wards \<and>
   handle (\<lambda>c. []) (\<lambda>s. None) ApiInsights (Some frame_two_wards)
     = (CardsJson cards_two_wards, 200)"
proof -
  have o: "overview_data frame_no_zone = Inl (KeyError ''stress_zone'')"
    by (simp add: overview_data_def count_zone_def getitem_def frame_no_zone_def)
  have p: "stress_pie frame_no_zone = Inl (KeyError ''stress_zone'')"
    by (simp add: stress_pie_def getitem_def frame_no_zone_def)
  have m: "map_err (make_marker (\<lambda>s. None)) (iterrows frame_no_zone)
      = Inl (KeyError ''stress_zone'')"
    by (simp add: iterrows_def row_at_def cell_at_def frame_no_zone_def make_marker_def
        dict_getitem_def)
  have w: "wards_records (\<lambda>c. []) frame_no_zone = Inl (KeyError ''pm25'')"
    by (simp add: wards_records_def ward_columns_def getitem_def frame_no_zone_def)
  have i: "insights_cards frame_no_zone = Inl (KeyError ''stress_zone'')"
    by (simp add: insights_cards_def card_critical_def count_zone_def getitem_def
        frame_no_zone_def)
  have t: "overview_data frame_two_wards = Inr overview_two_wards"
    using get_overview_two_wards by (auto simp: get_overview_def split: sum.splits)
  have "cards_two_wards \<noteq> []"
    by (simp add: cards_two_wards_def)
  then have c: "insights_cards frame_two_wards = Inr cards_two_wards"
    using get_insights_two_wards by (auto simp: get_insights_def split: sum.splits)
  show ?thesis
    using status_by_endpoint [of "\<lambda>c. []" "\<lambda>s. None" ApiInsights frame_no_zone
        "KeyError ''stress_zone''"]
      status_by_endpoint [of "\<lambda>c. []" "\<lambda>s. None" ApiInsights frame_no_zone
        "KeyError ''pm25''"]
      status_by_endpoint [of "\<lambda>c. []" "\<lambda>s. None" ApiInsights frame_two_wards
        "KeyError ''stress_zone''" _ _ cards_two_wards overview_two_wards]
      o p m w i t c
    by simp
qed

section \<open>The insight cards (C2)\<close>

lemma card_critical_title: "card_critical df = Inr c \<Longrightarrow> title c = ''Critical Zones''"
  unfolding card_critical_def Let_def by (auto simp: seq_Inr_iff)

lemma card_pollution_title: "card_pollution df = Inr c \<Longrightarrow> title c = ''Pollution Hotspot''"
  unfolding card_pollution_def Let_def by (auto simp: seq_Inr_iff)

lemma card_green_title: "card_green df = Inr c \<Longrightarrow> title c = ''Green Cover Gap''"
  unfolding card_green_def Let_def by (auto simp: seq_Inr_iff)

lemma card_population_title:
  "card_population df = Inr c \<Longrightarrow> title c = ''Population at Risk''"
  unfolding card_population_def Let_def by (auto simp: seq_Inr_iff)

lemma card_budget_title: "card_budget df = Inr c \<Longrightarrow> title c = ''Budget Strategy''"
  unfolding card_budget_def Let_def by (auto simp: seq_Inr_iff)

lemma insights_cards_titles: "insights_cards df = Inr cs \<Longrightarrow> map title cs = insight_titles"
  unfolding insights_cards_def insight_titles_def
  by (auto simp: seq_Inr_iff card_critical_title card_pollution_title card_green_title
      card_population_title card_budget_title)

lemma getitem_present:
  assumes "k \<in> set (columns df)"
  obtains c where "getitem df k = Inr c"
  using assms by (cases "getitem df k") (auto simp: columns_mem_getitem)

lemma card_critical_ok:
  assumes "0 < nrows df" "''stress_zone'' \<in> set (columns df)"
  shows "\<exists>c. card_critical df = Inr c"
proof -
  obtain z where "getitem df ''stress_zone'' = Inr z"
    using assms(2) by (rule getitem_present)
  then show ?thesis
    using assms(1) by (simp add: card_critical_def count_zone_def py_div_def)
qed

lemma dict_getitem_row_at:
  "dict_getitem (row_at df i) k =
     (case getitem df k of Inl e \<Rightarrow> Inl (KeyError k) | Inr c \<Rightarrow> Inr (cell_at c i))"
  by (simp add: dict_getitem_def row_at_def getitem_def map_of_map split: option.split)

lemma cell_at_NumCol: "cell_at (NumCol vs) i \<noteq> Str s"
  by (auto simp: cell_at_def split: option.splits)

lemma idxmax_ok:
  assumes "list_ex (\<lambda>v. v \<noteq> None) vs"
  shows "\<exists>i. idxmax (NumCol vs) = Inr i"
proof -
  from assms obtain v where "v \<in> set vs" "v \<noteq> None" by (auto simp: list_ex_iff)
  then obtain i where "i < length vs" "vs ! i = v"
    by (auto simp: in_set_conv_nth)
  then have "(i, v) \<in> set (enumerate 0 vs)"
    by (simp add: in_set_enumerate_eq)
  then have "\<exists>p \<in> set (enumerate 0 vs). (\<lambda>(i, v). map_option (Pair i) v) p \<noteq> None"
    using \<open>v \<noteq> None\<close> by (intro bexI [of _ "(i, v)"]) auto
  then have "List.map_filter (\<lambda>(i, v). map_option (Pair i) v) (enumerate 0 vs) \<noteq> []"
    by (simp add: map_filter_def filter_empty_conv)
  then show ?thesis by (auto split: list.split)
qed

lemma pct_above_not_Str:
  assumes "\<forall>s. w \<noteq> Str s"
  shows "\<exists>p. pct_above w a = Inr p \<and> (\<forall>s. p \<noteq> Str s)"
  using assms by (cases w; cases a) auto

lemma format_float_ok: "\<forall>s. v \<noteq> Str s \<Longrightarrow> format_float v = Inr v"
  by (cases v) auto

lemma card_pollution_ok:
  assumes "getitem df ''pm25'' = Inr (NumCol vs)" "list_ex (\<lambda>v. v \<noteq> None) vs"
    "''ward'' \<in> set (columns df)"
  shows "\<exists>c. card_pollution df = Inr c"
proof -
  obtain i where i: "idxmax (NumCol vs) = Inr i" using idxmax_ok [OF assms(2)] by blast
  obtain w where w: "getitem df ''ward'' = Inr w"
    using assms(3) by (rule getitem_present)
  obtain a where a: "mean (NumCol vs) = Inr a" by (simp add: mean_def)
  obtain p where p: "pct_above (cell_at (NumCol vs) i) a = Inr p" "\<forall>s. p \<noteq> Str s"
    using pct_above_not_Str [of "cell_at (NumCol vs) i" a] cell_at_NumCol by blast
  show ?thesis
    unfolding card_pollution_def Let_def
    by (simp add: assms(1) i a w p dict_getitem_row_at format_float_ok cell_at_NumCol
        del: idxmax.simps)
qed

lemma card_green_ok:
  assumes "getitem df ''green_cover'' = Inr (NumCol vs)"
  shows "\<exists>c. card_green df = Inr c"
  by (simp add: card_green_def assms mean_def Let_def)

lemma high_stress_sum_ok:
  assumes "''stress_zone'' \<in> set (columns df)"
    "case getitem df name of Inr (StrCol vs) \<Rightarrow> False | _ \<Rightarrow> True"
  shows "\<exists>v. high_stress_sum df name = Inr v"
proof -
  obtain z where z: "getitem df ''stress_zone'' = Inr z"
    using assms(1) by (rule getitem_present)
  show ?thesis
  proof (cases "name \<in> set (columns df)")
    case False
    then show ?thesis by (simp add: high_stress_sum_def)
  next
    case True
    then obtain vs where "getitem df name = Inr (NumCol vs)"
      using assms(2) by (auto simp: columns_mem_getitem split: sum.splits column.splits)
    then show ?thesis
      using True by (simp add: high_stress_sum_def z getitem_boolean_index sum_col_def)
  qed
qed

lemma total_sum_ok:
  assumes "case getitem df name of Inr (StrCol vs) \<Rightarrow> False | _ \<Rightarrow> True"
  shows "\<exists>v. (if name \<in> set (columns df) then seq (getitem df name) sum_col else Inr 1) = Inr v"
  using assms
  by (auto simp: columns_mem_getitem sum_col_def split: sum.splits column.splits)

lemma insights_ready_ok:
  assumes "insights_ready df"
  shows "\<exists>cs. insights_cards df = Inr cs"
proof -
  from assms have r: "0 < nrows df" "''stress_zone'' \<in> set (columns df)"
      "''ward'' \<in> set (columns df)"
    and pm: "case getitem df ''pm25'' of
               Inr (NumCol vs) \<Rightarrow> list_ex (\<lambda>v. v \<noteq> None) vs | _ \<Rightarrow> False"
    and gr: "case getitem df ''green_cover'' of Inr (NumCol vs) \<Rightarrow> True | _ \<Rightarrow> False"
    and po: "case getitem df ''population'' of Inr (StrCol vs) \<Rightarrow> False | _ \<Rightarrow> True"
    and bu: "case getitem df ''total_budget'' of Inr (StrCol vs) \<Rightarrow> False | _ \<Rightarrow> True"
    by (simp_all add: insights_ready_def)
  obtain c1 where c1: "card_critical df = Inr c1" using card_critical_ok r by blast
  from pm obtain vs where "getitem df ''pm25'' = Inr (NumCol vs)" "list_ex (\<lambda>v. v \<noteq> None) vs"
    by (auto split: sum.splits column.splits)
  then obtain c2 where c2: "card_pollution df = Inr c2" using card_pollution_ok r(3) by blast
  from gr obtain gs where "getitem df ''green_cover'' = Inr (NumCol gs)"
    by (auto split: sum.splits column.splits)
  then obtain c3 where c3: "card_green df = Inr c3" using card_green_ok by blast
  obtain v4 where "high_stress_sum df ''population'' = Inr v4"
    using high_stress_sum_ok [OF r(2) po] by blast
  then obtain c4 where c4: "card_population df = Inr c4" by (simp add: card_population_def)
  obtain hb where hb: "high_stress_sum df ''total_budget'' = Inr hb"
    using high_stress_sum_ok [OF r(2) bu] by blast
  obtain tb where tb: "(if ''total_budget'' \<in> set (columns df)
       then seq (getitem df ''total_budget'') sum_col else Inr 1) = Inr tb"
    using total_sum_ok [OF bu] by blast
  have "\<exists>c5. card_budget df = Inr c5"
    unfolding card_budget_def Let_def by (simp only: hb tb seq.simps) simp
  then obtain c5 where c5: "card_budget df = Inr c5" by blast
  show ?thesis by (simp add: insights_cards_def c1 c2 c3 c4 c5)
qed

lemma insights_zero_rows: "get_insights (Some frame_zero_rows) = (CardsJson [], 200)"
  by (simp add: get_insights_def insights_cards_def card_critical_def count_zone_def
      getitem_def py_div_def frame_zero_rows_def)

text \<open>
  C2, as the claim has it, fails: without a table \<^verbatim>\<open>get_insights\<close> returns the empty
  list at once, which has no card.
\<close>

theorem insights_empty_dataset_counterexample:
  "get_insights None = (CardsJson [], 200) \<and> length ([] :: card list) \<noteq> 5"
  by (simp add: get_insights_def)

text \<open>
  C2, amended. Without a table the insights are the empty list. With a table they are
  either the five cards Critical Zones, Pollution Hotspot, Green Cover Gap, Population at
  Risk, Budget Strategy, in this order, or the empty list, never a part of the five; and
  they are the five cards on every table that has a row, the columns
  \<^verbatim>\<open>stress_zone\<close> and \<^verbatim>\<open>ward\<close>, a numeric \<^verbatim>\<open>pm25\<close> column with a value, a numeric
  \<^verbatim>\<open>green_cover\<close> column and no text in \<^verbatim>\<open>population\<close> or \<^verbatim>\<open>total_budget\<close>.
\<close>

theorem insights_five_cards_or_none:
  "get_insights None = (CardsJson [], 200) \<and>
   (get_insights (Some df) = (CardsJson [], 200) \<or>
    (\<exists>cs. get_insights (Some df) = (CardsJson cs, 200) \<and> map title cs = insight_titles)) \<and>
   (insights_ready df \<longrightarrow>
      (\<exists>cs. get_insights (Some df) = (CardsJson cs, 200) \<and> map title cs = insight_titles))"
proof (intro conjI impI)
  show "get_insights None = (CardsJson [], 200)" by (simp add: get_insights_def)
  show "get_insights (Some df) = (CardsJson [], 200) \<or>
    (\<exists>cs. get_insights (Some df) = (CardsJson cs, 200) \<and> map title cs = insight_titles)"
    by (cases "insights_cards df") (simp_all add: get_insights_def insights_cards_titles)
  assume "insights_ready df"
  then obtain cs where "insights_cards df = Inr cs" using insights_ready_ok by blast
  then show "\<exists>cs. get_insights (Some df) = (CardsJson cs, 200) \<and> map title cs = insight_titles"
    by (simp add: get_insights_def insights_cards_titles)
qed

theorem insights_five_cards_or_none_witness:
  "insights_ready frame_two_wards \<and>
   get_insights (Some frame_two_wards) = (CardsJson cards_two_wards, 200) \<and>
   map title cards_two_wards
     = [''Critical Zones'', ''Pollution Hotspot'', ''Green Cover Gap'',
        ''Population at Risk'', ''Budget Strategy'']"
proof -
  have r: "insights_ready frame_two_wards"
    by (simp add: insights_ready_def frame_two_wards_def columns_def getitem_def)
  then obtain cs where "get_insights (Some frame_two_wards) = (CardsJson cs, 200)"
    "map title cs = insight_titles"
    using insights_five_cards_or_none [of frame_two_wards] by blast
  then have "map title cards_two_wards = insight_titles"
    by (simp add: get_insights_two_wards)
  then show ?thesis
    using r get_insights_two_wards by (simp add: insight_titles_def)
qed

end
